theory Spec2Isabelle
  imports Complex_Main
begin

section \<open>Python values and the library functions the agents call\<close>

text \<open>
  The agents of \<^verbatim>\<open>python_classes/ReAct_agent/agent.py\<close> and
  \<^verbatim>\<open>python_classes/tool_calling_agent/agent.py\<close> work on whatever \<^verbatim>\<open>json.loads\<close>
  returns: \<^verbatim>\<open>None\<close>, booleans, unbounded integers, floats, strings, lists and
  dictionaries with string keys. A dictionary is an association list in insertion order
  with distinct keys. A string is a list of characters, one per code point (code points
  above 255 are not representable). A finite float is the rational number it denotes
  (the sign of zero is not kept); the infinities and NaN are separate values.

  An exception is a value of \<open>exn\<close>: every \<^verbatim>\<open>raise\<close> of the code and of the
  operators it uses is a branch of the model. Not modelled: an exception of the
  completion capability, an exception outside \<^verbatim>\<open>Exception\<close> raised by a tool, and the
  limit recent interpreters put on the number of digits when an integer is converted
  to or from a string.
\<close>

datatype pyfloat = FFin rat | FInf bool | FNaN

datatype pyval =
    PNone
  | PBool bool
  | PInt int
  | PFloat pyfloat
  | PStr string
  | PList "pyval list"
  | PDict "(string \<times> pyval) list"

text \<open>The exception classes that occur in the modelled code.\<close>

datatype exn =
    JSONDecodeError
  | TypeError
  | ValueError
  | OverflowError
  | AttributeError
  | KeyError

text \<open>
  Library functions whose text output or parsing is not part of the repository are
  parameters of the model: \<^verbatim>\<open>json.loads\<close> (\<open>None\<close> is \<^verbatim>\<open>JSONDecodeError\<close>),
  \<^verbatim>\<open>json.dumps\<close> with and without \<^verbatim>\<open>indent=2\<close>, \<^verbatim>\<open>str\<close> on a value, and
  \<^verbatim>\<open>float\<close> on a string (\<open>None\<close> is \<^verbatim>\<open>ValueError\<close>).
\<close>

record pylib =
  json_loads :: "string \<Rightarrow> pyval option"
  json_dumps :: "pyval \<Rightarrow> string"
  json_dumps_indent :: "pyval \<Rightarrow> string"
  str_of :: "pyval \<Rightarrow> string"
  float_of_str :: "string \<Rightarrow> pyfloat option"

subsection \<open>Strings: \<^verbatim>\<open>str.strip\<close>, substring search, the two regular expressions\<close>

text \<open>The code points below 256 for which \<^verbatim>\<open>str.isspace\<close> holds.\<close>

definition is_space :: "char \<Rightarrow> bool" where
  "is_space c = (c \<in> set [CHR 0x09, CHR 0x0A, CHR 0x0B, CHR 0x0C, CHR 0x0D,
                           CHR 0x1C, CHR 0x1D, CHR 0x1E, CHR 0x1F, CHR 0x20,
                           CHR 0x85, CHR 0xA0])"

definition strip :: "string \<Rightarrow> string" where
  "strip s = rev (dropWhile is_space (rev (dropWhile is_space s)))"

fun starts_with :: "string \<Rightarrow> string \<Rightarrow> bool" where
  "starts_with [] s = True"
| "starts_with (p # ps) [] = False"
| "starts_with (p # ps) (c # cs) = (p = c \<and> starts_with ps cs)"

text \<open>
  \<open>find_sub needle s\<close> splits \<open>s\<close> at the first occurrence of \<open>needle\<close>: the text
  before it and the text after it.
\<close>

fun find_sub :: "string \<Rightarrow> string \<Rightarrow> (string \<times> string) option" where
  "find_sub needle [] = (if needle = [] then Some ([], []) else None)"
| "find_sub needle (c # cs) =
     (if starts_with needle (c # cs) then Some ([], drop (length needle) (c # cs))
      else (case find_sub needle cs of
              None \<Rightarrow> None
            | Some (before, after) \<Rightarrow> Some (c # before, after)))"

definition is_substring :: "string \<Rightarrow> string \<Rightarrow> bool" where
  "is_substring needle s = (find_sub needle s \<noteq> None)"

text \<open>
  \<^verbatim>\<open>re.search(open + "(.*?)" + close, s, re.DOTALL)\<close> for literal delimiters: the
  leftmost match starts at the first \<open>open\<close>, and the non-greedy group ends at the
  first \<open>close\<close> after it. The result is group 1 and the text after the match.
\<close>

definition re_search_span :: "string \<Rightarrow> string \<Rightarrow> string \<Rightarrow> (string \<times> string) option" where
  "re_search_span opn cls s =
     (case find_sub opn s of
        None \<Rightarrow> None
      | Some (before, rest) \<Rightarrow>
          (case find_sub cls rest of
             None \<Rightarrow> None
           | Some (inner, after) \<Rightarrow> Some (inner, after)))"

lemma starts_with_length: "starts_with p s \<Longrightarrow> length p \<le> length s"
  by (induction p s rule: starts_with.induct) auto

lemma find_sub_length:
  "find_sub needle s = Some (before, after) \<Longrightarrow> length after + length needle \<le> length s"
  by (induction s arbitrary: before)
     (auto split: if_splits option.splits dest: starts_with_length)

lemma re_search_span_length:
  "re_search_span opn cls s = Some (inner, after) \<Longrightarrow>
   length after + length opn \<le> length s"
  by (fastforce simp: re_search_span_def split: option.splits dest: find_sub_length)

text \<open>
  \<^verbatim>\<open>re.findall\<close> with one group: the group of every match, scanning on from the end
  of each match. The opening delimiter is not empty, so every match is not empty.
\<close>

function re_findall_span :: "string \<Rightarrow> string \<Rightarrow> string \<Rightarrow> string list" where
  "re_findall_span opn cls s =
     (if opn = [] then []
      else (case re_search_span opn cls s of
              None \<Rightarrow> []
            | Some (inner, after) \<Rightarrow> inner # re_findall_span opn cls after))"
  by pat_completeness auto
termination
proof (relation "measure (\<lambda>(opn, cls, s). length s)")
  show "wf (measure (\<lambda>(opn, cls, s). length s))" by simp
next
  fix opn cls s :: string and x2 inner after
  assume "opn \<noteq> []" and "re_search_span opn cls s = Some x2" and "(inner, after) = x2"
  then have "length after + length opn \<le> length s"
    using re_search_span_length [of opn cls s inner after] by simp
  with \<open>opn \<noteq> []\<close> show "((opn, cls, after), (opn, cls, s)) \<in> measure (\<lambda>(opn, cls, s). length s)"
    by (cases opn) auto
qed

subsection \<open>Operators on values\<close>

text \<open>
  \<^verbatim>\<open>s in x\<close> for a string \<open>s\<close>: key membership in a dictionary, element membership
  in a list, substring test in a string; \<^verbatim>\<open>TypeError\<close> on a value that is not
  iterable.
\<close>

fun str_in :: "string \<Rightarrow> pyval \<Rightarrow> exn + bool" where
  "str_in s (PDict d) = Inr (s \<in> set (map fst d))"
| "str_in s (PList xs) = Inr (PStr s \<in> set xs)"
| "str_in s (PStr t) = Inr (is_substring s t)"
| "str_in s PNone = Inl TypeError"
| "str_in s (PBool b) = Inl TypeError"
| "str_in s (PInt n) = Inl TypeError"
| "str_in s (PFloat f) = Inl TypeError"

text \<open>\<^verbatim>\<open>x[k]\<close> for a string \<open>k\<close>.\<close>

fun getitem :: "pyval \<Rightarrow> string \<Rightarrow> exn + pyval" where
  "getitem (PDict d) k = (case map_of d k of None \<Rightarrow> Inl KeyError | Some v \<Rightarrow> Inr v)"
| "getitem PNone k = Inl TypeError"
| "getitem (PBool b) k = Inl TypeError"
| "getitem (PInt n) k = Inl TypeError"
| "getitem (PFloat f) k = Inl TypeError"
| "getitem (PStr t) k = Inl TypeError"
| "getitem (PList xs) k = Inl TypeError"

text \<open>\<^verbatim>\<open>x.get(k, default)\<close>; only a dictionary has the method.\<close>

fun dict_get :: "pyval \<Rightarrow> string \<Rightarrow> pyval \<Rightarrow> exn + pyval" where
  "dict_get (PDict d) k dflt = Inr (case map_of d k of None \<Rightarrow> dflt | Some v \<Rightarrow> v)"
| "dict_get PNone k dflt = Inl AttributeError"
| "dict_get (PBool b) k dflt = Inl AttributeError"
| "dict_get (PInt n) k dflt = Inl AttributeError"
| "dict_get (PFloat f) k dflt = Inl AttributeError"
| "dict_get (PStr t) k dflt = Inl AttributeError"
| "dict_get (PList xs) k dflt = Inl AttributeError"

text \<open>Lists and dictionaries are unhashable: looking one up in a dictionary raises.\<close>

fun hashable :: "pyval \<Rightarrow> bool" where
  "hashable (PList xs) = False"
| "hashable (PDict d) = False"
| "hashable v = True"

text \<open>An f-string field \<^verbatim>\<open>{x}\<close>: a string as it is, any other value through \<^verbatim>\<open>str\<close>.\<close>

definition fmt :: "pylib \<Rightarrow> pyval \<Rightarrow> string" where
  "fmt L v = (case v of PStr s \<Rightarrow> s | _ \<Rightarrow> str_of L v)"

subsection \<open>The converters \<^verbatim>\<open>int\<close>, \<^verbatim>\<open>str\<close>, \<^verbatim>\<open>bool\<close>, \<^verbatim>\<open>float\<close>\<close>

datatype pytype = TInt | TStr | TBool | TFloat

text \<open>\<^verbatim>\<open>isinstance(v, t)\<close>; \<^verbatim>\<open>bool\<close> is a subclass of \<^verbatim>\<open>int\<close>.\<close>

fun isinstance :: "pyval \<Rightarrow> pytype \<Rightarrow> bool" where
  "isinstance (PBool b) TInt = True"
| "isinstance (PInt n) TInt = True"
| "isinstance (PStr s) TStr = True"
| "isinstance (PBool b) TBool = True"
| "isinstance (PFloat f) TFloat = True"
| "isinstance v t = False"

text \<open>\<^verbatim>\<open>bool(v)\<close>: the truth value of a value.\<close>

fun truthy :: "pyval \<Rightarrow> bool" where
  "truthy PNone = False"
| "truthy (PBool b) = b"
| "truthy (PInt n) = (n \<noteq> 0)"
| "truthy (PFloat f) = (f \<noteq> FFin 0)"
| "truthy (PStr s) = (s \<noteq> [])"
| "truthy (PList xs) = (xs \<noteq> [])"
| "truthy (PDict d) = (d \<noteq> [])"

text \<open>
  \<^verbatim>\<open>int(s)\<close> on a string: surrounding whitespace is dropped, then an optional sign
  and decimal digits, where single underscores may separate digits. (The limit on the
  number of digits of recent interpreters is not modelled.)
\<close>

definition digit_val :: "char \<Rightarrow> nat option" where
  "digit_val c = map_of [(CHR ''0'', 0), (CHR ''1'', 1), (CHR ''2'', 2), (CHR ''3'', 3),
                         (CHR ''4'', 4), (CHR ''5'', 5), (CHR ''6'', 6), (CHR ''7'', 7),
                         (CHR ''8'', 8), (CHR ''9'', 9)] c"

fun int_digits :: "string \<Rightarrow> nat \<Rightarrow> nat option" where
  "int_digits [] acc = Some acc"
| "int_digits [c] acc =
     (case digit_val c of None \<Rightarrow> None | Some v \<Rightarrow> Some (acc * 10 + v))"
| "int_digits (c # d # ds) acc =
     (if c = CHR ''_'' then
        (case digit_val d of None \<Rightarrow> None | Some v \<Rightarrow> int_digits ds (acc * 10 + v))
      else
        (case digit_val c of None \<Rightarrow> None | Some v \<Rightarrow> int_digits (d # ds) (acc * 10 + v)))"

definition unsigned_of_str :: "string \<Rightarrow> nat option" where
  "unsigned_of_str s =
     (case s of
        [] \<Rightarrow> None
      | c # cs \<Rightarrow> (case digit_val c of None \<Rightarrow> None | Some v \<Rightarrow> int_digits cs v))"

definition int_of_str :: "string \<Rightarrow> int option" where
  "int_of_str s =
     (case strip s of
        [] \<Rightarrow> None
      | c # cs \<Rightarrow>
          if c = CHR ''-'' then map_option (\<lambda>n. - int n) (unsigned_of_str cs)
          else if c = CHR ''+'' then map_option int (unsigned_of_str cs)
          else map_option int (unsigned_of_str (c # cs)))"

text \<open>
  \<^verbatim>\<open>float(n)\<close> on an integer rounds to the nearest double (53 significant bits, ties
  to even) and raises \<^verbatim>\<open>OverflowError\<close> when the rounded value would be
  \<open>2 ^ 1024\<close> or more.
\<close>

fun bit_len :: "nat \<Rightarrow> nat" where
  "bit_len n = (if n = 0 then 0 else Suc (bit_len (n div 2)))"

declare bit_len.simps [simp del]

definition double_of_int :: "int \<Rightarrow> rat" where
  "double_of_int n =
     (let a = nat \<bar>n\<bar>; b = bit_len a in
      if b \<le> 53 then of_int n
      else
        let e = b - 53; q = a div 2 ^ e; r = a mod 2 ^ e; h = 2 ^ (e - 1);
            q' = (if h < r \<or> (r = h \<and> odd q) then q + 1 else q)
        in of_int (sgn n) * of_nat (q' * 2 ^ e))"

definition float_overflows :: "int \<Rightarrow> bool" where
  "float_overflows n = (2 ^ 1024 - 2 ^ 970 \<le> \<bar>n\<bar>)"

text \<open>
  The four converters of \<open>type_mapping\<close>, applied to a value; \<open>Inl\<close> is the
  exception the call raises.
\<close>

fun py_int :: "pyval \<Rightarrow> exn + pyval" where
  "py_int PNone = Inl TypeError"
| "py_int (PBool b) = Inr (PInt (if b then 1 else 0))"
| "py_int (PInt n) = Inr (PInt n)"
| "py_int (PFloat (FFin q)) = Inr (PInt (if 0 \<le> q then \<lfloor>q\<rfloor> else \<lceil>q\<rceil>))"
| "py_int (PFloat (FInf s)) = Inl OverflowError"
| "py_int (PFloat FNaN) = Inl ValueError"
| "py_int (PStr s) =
     (case int_of_str s of None \<Rightarrow> Inl ValueError | Some n \<Rightarrow> Inr (PInt n))"
| "py_int (PList xs) = Inl TypeError"
| "py_int (PDict d) = Inl TypeError"

fun py_float :: "pylib \<Rightarrow> pyval \<Rightarrow> exn + pyval" where
  "py_float L PNone = Inl TypeError"
| "py_float L (PBool b) = Inr (PFloat (FFin (if b then 1 else 0)))"
| "py_float L (PInt n) =
     (if float_overflows n then Inl OverflowError
      else Inr (PFloat (FFin (double_of_int n))))"
| "py_float L (PFloat f) = Inr (PFloat f)"
| "py_float L (PStr s) =
     (case float_of_str L s of None \<Rightarrow> Inl ValueError | Some f \<Rightarrow> Inr (PFloat f))"
| "py_float L (PList xs) = Inl TypeError"
| "py_float L (PDict d) = Inl TypeError"

fun converter :: "pylib \<Rightarrow> pytype \<Rightarrow> pyval \<Rightarrow> exn + pyval" where
  "converter L TInt v = py_int v"
| "converter L TStr v = Inr (PStr (fmt L v))"
| "converter L TBool v = Inr (PBool (truthy v))"
| "converter L TFloat v = py_float L v"

section \<open>The directive extractor\<close>

text \<open>
  \<^verbatim>\<open>"name" in tool_call and "arguments" in tool_call\<close>, with the short circuit of
  \<^verbatim>\<open>and\<close>.
\<close>

definition has_call_keys :: "pyval \<Rightarrow> exn + bool" where
  "has_call_keys tool_call =
     (case str_in ''name'' tool_call of
        Inl e \<Rightarrow> Inl e
      | Inr False \<Rightarrow> Inr False
      | Inr True \<Rightarrow> str_in ''arguments'' tool_call)"

text \<open>
  The loop of \<^verbatim>\<open>extract_tool_calls\<close> over the matches: \<^verbatim>\<open>JSONDecodeError\<close> is the
  only exception the loop body catches; any other one leaves the function.
\<close>

fun extract_loop :: "pylib \<Rightarrow> string list \<Rightarrow> pyval list \<Rightarrow> exn + pyval list" where
  "extract_loop L [] tool_calls = Inr tool_calls"
| "extract_loop L (m # matches) tool_calls =
     (case json_loads L (strip m) of
        None \<Rightarrow> extract_loop L matches tool_calls
      | Some tool_call \<Rightarrow>
          (case has_call_keys tool_call of
             Inl e \<Rightarrow> Inl e
           | Inr True \<Rightarrow> extract_loop L matches (tool_calls @ [tool_call])
           | Inr False \<Rightarrow> extract_loop L matches tool_calls))"

text \<open>
  \<^verbatim>\<open>extract_tool_calls\<close> is the same function in both agents (they differ in what
  they print).
\<close>

definition extract_tool_calls :: "pylib \<Rightarrow> string \<Rightarrow> exn + pyval list" where
  "extract_tool_calls L response =
     extract_loop L (re_findall_span ''<tool_call>'' ''</tool_call>'' response) []"

definition extract_final_response :: "string \<Rightarrow> string option" where
  "extract_final_response response =
     (case re_search_span ''<response>'' ''</response>'' response of
        None \<Rightarrow> None
      | Some (inner, after) \<Rightarrow> Some (strip inner))"

section \<open>Argument coercion\<close>

definition type_mapping :: "(string \<times> pytype) list" where
  "type_mapping =
     [(''int'', TInt), (''str'', TStr), (''bool'', TBool), (''float'', TFloat),
      (''integer'', TInt), (''string'', TStr), (''boolean'', TBool), (''number'', TFloat)]"

text \<open>
  \<^verbatim>\<open>expected_type in type_mapping\<close> and \<^verbatim>\<open>type_mapping[expected_type]\<close>: the
  membership test hashes the value, which raises on a list or a dictionary; only a
  string can equal a key.
\<close>

definition lookup_type :: "(string \<times> pytype) list \<Rightarrow> pyval \<Rightarrow> exn + pytype option" where
  "lookup_type table t =
     (if \<not> hashable t then Inl TypeError
      else (case t of PStr s \<Rightarrow> Inr (map_of table s) | _ \<Rightarrow> Inr None))"

text \<open>
  The \<^verbatim>\<open>try\<close> block around one conversion: the value is converted when its type
  does not match; \<^verbatim>\<open>ValueError\<close> and \<^verbatim>\<open>TypeError\<close> are caught and the value is
  kept; any other exception leaves the block.
\<close>

definition try_convert :: "pylib \<Rightarrow> pytype \<Rightarrow> pyval \<Rightarrow> exn + pyval" where
  "try_convert L ty arg_value =
     (if isinstance arg_value ty then Inr arg_value
      else (case converter L ty arg_value of
              Inr v \<Rightarrow> Inr v
            | Inl ValueError \<Rightarrow> Inr arg_value
            | Inl TypeError \<Rightarrow> Inr arg_value
            | Inl e \<Rightarrow> Inl e))"

text \<open>The body of the loop for one argument: the value the argument has afterwards.\<close>

definition coerce_arg :: "pylib \<Rightarrow> pyval \<Rightarrow> string \<Rightarrow> pyval \<Rightarrow> exn + pyval" where
  "coerce_arg L properties arg_name arg_value =
     (case str_in arg_name properties of
        Inl e \<Rightarrow> Inl e
      | Inr False \<Rightarrow> Inr arg_value
      | Inr True \<Rightarrow>
          (case getitem properties arg_name of
             Inl e \<Rightarrow> Inl e
           | Inr prop \<Rightarrow>
               (case str_in ''type'' prop of
                  Inl e \<Rightarrow> Inl e
                | Inr False \<Rightarrow> Inr arg_value
                | Inr True \<Rightarrow>
                    (case getitem prop ''type'' of
                       Inl e \<Rightarrow> Inl e
                     | Inr expected_type \<Rightarrow>
                         (case lookup_type type_mapping expected_type of
                            Inl e \<Rightarrow> Inl e
                          | Inr None \<Rightarrow> Inr arg_value
                          | Inr (Some ty) \<Rightarrow> try_convert L ty arg_value)))))"

text \<open>
  The loop over \<^verbatim>\<open>tool_call["arguments"].items()\<close>. The dictionary is updated in
  place, so when an exception leaves the loop the arguments converted so far stay
  converted: \<open>Inl\<close> carries the exception and the dictionary as it then is.
\<close>

fun coerce_items ::
  "pylib \<Rightarrow> pyval \<Rightarrow> (string \<times> pyval) list \<Rightarrow> (string \<times> pyval) list \<Rightarrow>
   (exn \<times> (string \<times> pyval) list) + (string \<times> pyval) list" where
  "coerce_items L properties done [] = Inr done"
| "coerce_items L properties done ((arg_name, arg_value) # rest) =
     (case coerce_arg L properties arg_name arg_value of
        Inl e \<Rightarrow> Inl (e, done @ (arg_name, arg_value) # rest)
      | Inr v \<Rightarrow> coerce_items L properties (done @ [(arg_name, v)]) rest)"

text \<open>
  \<^verbatim>\<open>"parameters" not in tool_spec or "properties" not in tool_spec["parameters"]\<close>,
  negated: whether the specification has a \<^verbatim>\<open>parameters.properties\<close> section.
\<close>

definition has_properties :: "pyval \<Rightarrow> exn + bool" where
  "has_properties tool_spec =
     (case str_in ''parameters'' tool_spec of
        Inl e \<Rightarrow> Inl e
      | Inr False \<Rightarrow> Inr False
      | Inr True \<Rightarrow>
          (case getitem tool_spec ''parameters'' of
             Inl e \<Rightarrow> Inl e
           | Inr parameters \<Rightarrow> str_in ''properties'' parameters))"

text \<open>
  \<^verbatim>\<open>convert_argument_types\<close> of both agents (the same code), called on
  \<^verbatim>\<open>tool_call = {"arguments": arguments}\<close> as \<^verbatim>\<open>execute_tool\<close> does. The function
  reads and writes only \<^verbatim>\<open>tool_call["arguments"]\<close>: \<open>Inr\<close> is that entry of the
  returned \<^verbatim>\<open>tool_call\<close>, \<open>Inl\<close> the exception raised and the entry as it is then.
\<close>

definition convert_argument_types ::
  "pylib \<Rightarrow> pyval \<Rightarrow> pyval \<Rightarrow> (exn \<times> pyval) + pyval" where
  "convert_argument_types L arguments tool_spec =
     (case has_properties tool_spec of
        Inl e \<Rightarrow> Inl (e, arguments)
      | Inr False \<Rightarrow> Inr arguments
      | Inr True \<Rightarrow>
          (case getitem tool_spec ''parameters'' of
             Inl e \<Rightarrow> Inl (e, arguments)
           | Inr parameters \<Rightarrow>
               (case getitem parameters ''properties'' of
                  Inl e \<Rightarrow> Inl (e, arguments)
                | Inr properties \<Rightarrow>
                    (case arguments of
                       PDict items \<Rightarrow>
                         (case coerce_items L properties [] items of
                            Inl (e, items') \<Rightarrow> Inl (e, PDict items')
                          | Inr items' \<Rightarrow> Inr (PDict items'))
                     | _ \<Rightarrow> Inl (AttributeError, arguments)))))"

subsection \<open>The module-level \<^verbatim>\<open>convert_argument_types\<close> of \<^verbatim>\<open>decorators.py\<close>\<close>

definition type_converters :: "(string \<times> pytype) list" where
  "type_converters =
     [(''int'', TInt), (''str'', TStr), (''bool'', TBool), (''float'', TFloat)]"

text \<open>
  \<^verbatim>\<open>type_converters[target_type]\<close>: \<^verbatim>\<open>KeyError\<close> on a value that is not a key
  (\<^verbatim>\<open>None\<close> too), \<^verbatim>\<open>TypeError\<close> on an unhashable one.
\<close>

definition index_type :: "(string \<times> pytype) list \<Rightarrow> pyval \<Rightarrow> exn + pytype" where
  "index_type table t =
     (case lookup_type table t of
        Inl e \<Rightarrow> Inl e
      | Inr None \<Rightarrow> Inl KeyError
      | Inr (Some ty) \<Rightarrow> Inr ty)"

text \<open>The loop body: nothing is caught here.\<close>

definition decorators_coerce_arg ::
  "pylib \<Rightarrow> pyval \<Rightarrow> string \<Rightarrow> pyval \<Rightarrow> exn + pyval" where
  "decorators_coerce_arg L expected_params arg_name arg_value =
     (case getitem expected_params arg_name of
        Inl e \<Rightarrow> Inl e
      | Inr prop \<Rightarrow>
          (case dict_get prop ''type'' PNone of
             Inl e \<Rightarrow> Inl e
           | Inr target_type \<Rightarrow>
               (case index_type type_converters target_type of
                  Inl e \<Rightarrow> Inl e
                | Inr ty \<Rightarrow>
                    if isinstance arg_value ty then Inr arg_value
                    else converter L ty arg_value)))"

fun decorators_coerce_items ::
  "pylib \<Rightarrow> pyval \<Rightarrow> (string \<times> pyval) list \<Rightarrow> (string \<times> pyval) list \<Rightarrow>
   (exn \<times> (string \<times> pyval) list) + (string \<times> pyval) list" where
  "decorators_coerce_items L expected_params done [] = Inr done"
| "decorators_coerce_items L expected_params done ((arg_name, arg_value) # rest) =
     (case decorators_coerce_arg L expected_params arg_name arg_value of
        Inl e \<Rightarrow> Inl (e, done @ (arg_name, arg_value) # rest)
      | Inr v \<Rightarrow> decorators_coerce_items L expected_params (done @ [(arg_name, v)]) rest)"

definition decorators_convert_argument_types ::
  "pylib \<Rightarrow> pyval \<Rightarrow> pyval \<Rightarrow> (exn \<times> pyval) + pyval" where
  "decorators_convert_argument_types L arguments function_spec =
     (case getitem function_spec ''parameters'' of
        Inl e \<Rightarrow> Inl (e, arguments)
      | Inr parameters \<Rightarrow>
          (case getitem parameters ''properties'' of
             Inl e \<Rightarrow> Inl (e, arguments)
           | Inr expected_params \<Rightarrow>
               (case arguments of
                  PDict items \<Rightarrow>
                    (case decorators_coerce_items L expected_params [] items of
                       Inl (e, items') \<Rightarrow> Inl (e, PDict items')
                     | Inr items' \<Rightarrow> Inr (PDict items'))
                | _ \<Rightarrow> Inl (AttributeError, arguments))))"

section \<open>Tools and their specifications\<close>

text \<open>
  What \<^verbatim>\<open>extract_function_metadata\<close> reads of a callable: \<^verbatim>\<open>__name__\<close> (absent
  on a callable that has none), \<^verbatim>\<open>__doc__\<close>, and \<^verbatim>\<open>__annotations__\<close>, which
  holds the annotated parameters in order and then the return annotation under the key
  \<^verbatim>\<open>return\<close>. An annotation is read through its \<^verbatim>\<open>__name__\<close>; an annotation
  object without that attribute is \<open>Unnamed\<close>. \<open>fn_call\<close> is the call
  \<^verbatim>\<open>function(**arguments)\<close>: the value returned, or the message \<^verbatim>\<open>str(e)\<close> of the
  \<^verbatim>\<open>Exception\<close> it raises (also when the arguments cannot be bound).
\<close>

datatype annotation = Named string | Unnamed

record pyfunction =
  fn_name :: "string option"
  fn_doc :: "string option"
  fn_params :: "(string \<times> annotation option) list"
  fn_return :: "annotation option"
  fn_call :: "pyval \<Rightarrow> string + pyval"

definition annotations :: "pyfunction \<Rightarrow> (string \<times> annotation) list" where
  "annotations f =
     concat (map (\<lambda>(p, a). case a of None \<Rightarrow> [] | Some t \<Rightarrow> [(p, t)]) (fn_params f))
     @ (case fn_return f of None \<Rightarrow> [] | Some t \<Rightarrow> [(''return'', t)])"

text \<open>\<^verbatim>\<open>d[k] = v\<close> on a dictionary: a present key keeps its place.\<close>

fun dict_set :: "('k \<times> 'v) list \<Rightarrow> 'k \<Rightarrow> 'v \<Rightarrow> ('k \<times> 'v) list" where
  "dict_set [] k v = [(k, v)]"
| "dict_set ((k', v') # d) k v = (if k' = k then (k, v) # d else (k', v') # dict_set d k v)"

text \<open>
  The dictionary comprehension of \<^verbatim>\<open>extract_function_metadata\<close>, entry by entry:
  the key \<^verbatim>\<open>return\<close> is skipped, \<^verbatim>\<open>param_type.__name__\<close> raises
  \<^verbatim>\<open>AttributeError\<close> on an annotation without a name.
\<close>

fun parameter_types ::
  "(string \<times> annotation) list \<Rightarrow> (string \<times> pyval) list \<Rightarrow> exn + (string \<times> pyval) list" where
  "parameter_types [] acc = Inr acc"
| "parameter_types ((param_name, param_type) # rest) acc =
     (if param_name \<noteq> ''return'' then
        (case param_type of
           Unnamed \<Rightarrow> Inl AttributeError
         | Named n \<Rightarrow>
             parameter_types rest (dict_set acc param_name (PDict [(''type'', PStr n)])))
      else parameter_types rest acc)"

definition extract_function_metadata :: "pyfunction \<Rightarrow> exn + pyval" where
  "extract_function_metadata f =
     (case fn_name f of
        None \<Rightarrow> Inl AttributeError
      | Some n \<Rightarrow>
          (case parameter_types (annotations f) [] of
             Inl e \<Rightarrow> Inl e
           | Inr props \<Rightarrow>
               Inr (PDict [(''name'', PStr n),
                           (''description'', (case fn_doc f of None \<Rightarrow> PNone | Some d \<Rightarrow> PStr d)),
                           (''parameters'', PDict [(''properties'', PDict props)])])))"

text \<open>
  The class \<^verbatim>\<open>Tool\<close>: \<open>tool_function\<close> is \<^verbatim>\<open>Tool.execute(**arguments)\<close>, which
  calls the wrapped function.
\<close>

record tool =
  tool_name :: string
  tool_function :: "pyval \<Rightarrow> string + pyval"
  tool_specification :: string

text \<open>The decorator \<^verbatim>\<open>tool\<close>.\<close>

definition tool_decorator :: "pylib \<Rightarrow> pyfunction \<Rightarrow> exn + tool" where
  "tool_decorator L f =
     (case extract_function_metadata f of
        Inl e \<Rightarrow> Inl e
      | Inr metadata \<Rightarrow>
          (case fn_name f of
             None \<Rightarrow> Inl AttributeError
           | Some n \<Rightarrow>
               Inr \<lparr>tool_name = n, tool_function = fn_call f,
                    tool_specification = json_dumps L metadata\<rparr>))"

text \<open>
  The registry \<^verbatim>\<open>{tool.name: tool for tool in tools}\<close> of both constructors, built
  left to right.
\<close>

definition build_registry :: "tool list \<Rightarrow> (string \<times> tool) list" where
  "build_registry ts = foldl (\<lambda>d t. dict_set d (tool_name t) t) [] ts"

text \<open>
  \<^verbatim>\<open>tool_name not in self.tools\<close> and \<^verbatim>\<open>self.tools[tool_name]\<close>: the name is
  hashed first; only a string can equal a key.
\<close>

definition lookup_tool :: "(string \<times> tool) list \<Rightarrow> pyval \<Rightarrow> exn + tool option" where
  "lookup_tool registry name =
     (if \<not> hashable name then Inl TypeError
      else (case name of PStr s \<Rightarrow> Inr (map_of registry s) | _ \<Rightarrow> Inr None))"

section \<open>The tool dispatcher\<close>

definition not_found_message :: "pylib \<Rightarrow> pyval \<Rightarrow> string" where
  "not_found_message L name = ''Error: Tool '' @ [CHR 0x27] @ fmt L name @ [CHR 0x27] @ '' not found''"

definition execution_error_message :: "pylib \<Rightarrow> pyval \<Rightarrow> string \<Rightarrow> string" where
  "execution_error_message L name msg = ''Error executing '' @ fmt L name @ '': '' @ msg"

text \<open>
  The last \<^verbatim>\<open>try\<close> block of \<^verbatim>\<open>execute_tool\<close>: the tool is a \<^verbatim>\<open>Tool\<close>, so of the
  calling conventions \<^verbatim>\<open>ToolCallingAgent.execute_tool\<close> probes, the first
  (\<^verbatim>\<open>tool.execute\<close>) is the one taken.
\<close>

definition invoke :: "pylib \<Rightarrow> pyval \<Rightarrow> tool \<Rightarrow> pyval \<Rightarrow> pyval" where
  "invoke L name t arguments =
     (case tool_function t arguments of
        Inr result \<Rightarrow> result
      | Inl msg \<Rightarrow> PStr (execution_error_message L name msg))"

text \<open>
  The first \<^verbatim>\<open>try\<close> block, given the exceptions its \<^verbatim>\<open>except\<close> clause catches:
  the arguments go on as the (in place) conversion left them, or the exception leaves
  \<^verbatim>\<open>execute_tool\<close>.
\<close>

definition validate_arguments ::
  "pylib \<Rightarrow> (exn \<Rightarrow> bool) \<Rightarrow> tool \<Rightarrow> pyval \<Rightarrow> exn + pyval" where
  "validate_arguments L caught t arguments =
     (case json_loads L (tool_specification t) of
        None \<Rightarrow> if caught JSONDecodeError then Inr arguments else Inl JSONDecodeError
      | Some tool_spec \<Rightarrow>
          (case convert_argument_types L arguments tool_spec of
             Inr validated_args \<Rightarrow> Inr validated_args
           | Inl (e, arguments') \<Rightarrow> if caught e then Inr arguments' else Inl e))"

text \<open>
  \<^verbatim>\<open>execute_tool\<close>: the result, and the dictionary \<^verbatim>\<open>arguments\<close> as the call leaves
  it (it is the object stored in \<^verbatim>\<open>tool_call\<close> when the key is present).
\<close>

definition execute_tool_with ::
  "pylib \<Rightarrow> (exn \<Rightarrow> bool) \<Rightarrow> (string \<times> tool) list \<Rightarrow> pyval \<Rightarrow> exn + (pyval \<times> pyval)" where
  "execute_tool_with L caught registry tool_call =
     (case dict_get tool_call ''name'' PNone of
        Inl e \<Rightarrow> Inl e
      | Inr name \<Rightarrow>
          (case dict_get tool_call ''arguments'' (PDict []) of
             Inl e \<Rightarrow> Inl e
           | Inr arguments \<Rightarrow>
               (case lookup_tool registry name of
                  Inl e \<Rightarrow> Inl e
                | Inr None \<Rightarrow> Inr (PStr (not_found_message L name), arguments)
                | Inr (Some t) \<Rightarrow>
                    (case validate_arguments L caught t arguments of
                       Inl e \<Rightarrow> Inl e
                     | Inr arguments' \<Rightarrow> Inr (invoke L name t arguments', arguments')))))"

text \<open>\<^verbatim>\<open>ReActAgent.execute_tool\<close>: the first block catches \<^verbatim>\<open>Exception\<close>.\<close>

definition react_execute_tool ::
  "pylib \<Rightarrow> (string \<times> tool) list \<Rightarrow> pyval \<Rightarrow> exn + (pyval \<times> pyval)" where
  "react_execute_tool L registry tool_call = execute_tool_with L (\<lambda>e. True) registry tool_call"

text \<open>
  \<^verbatim>\<open>ToolCallingAgent.execute_tool\<close>: the first block catches
  \<^verbatim>\<open>(json.JSONDecodeError, AttributeError, KeyError)\<close>.
\<close>

definition tool_calling_caught :: "exn \<Rightarrow> bool" where
  "tool_calling_caught e = (e = JSONDecodeError \<or> e = AttributeError \<or> e = KeyError)"

definition tool_calling_execute_tool ::
  "pylib \<Rightarrow> (string \<times> tool) list \<Rightarrow> pyval \<Rightarrow> exn + (pyval \<times> pyval)" where
  "tool_calling_execute_tool L registry tool_call =
     execute_tool_with L tool_calling_caught registry tool_call"

section \<open>The agent loops\<close>

record message =
  role :: string
  content :: string

text \<open>
  What a run does besides returning: the calls of the completion capability (with the
  message list passed) and the calls of \<^verbatim>\<open>execute_tool\<close> (with the tool call
  passed), in order.
\<close>

datatype event = Completion "message list" | Dispatch pyval

text \<open>
  The completion capability is a function of the message list: within one run the
  list grows with every call, so this does not restrict what the capability answers.
  Its answer is the text \<^verbatim>\<open>response.choices[0].message.content\<close>.
\<close>

record react_agent =
  llm :: "message list \<Rightarrow> string"
  system_prompt :: string
  tools :: "(string \<times> tool) list"
  conversation_history :: "message list"
  max_iterations :: int

record tool_calling_agent =
  tc_model :: "message list \<Rightarrow> string"
  tc_system_prompt :: string
  tc_tools :: "(string \<times> tool) list"
  tc_conversation_history :: "message list"

definition react_init ::
  "(message list \<Rightarrow> string) \<Rightarrow> string \<Rightarrow> tool list \<Rightarrow> int \<Rightarrow> react_agent" where
  "react_init l prompt ts n =
     \<lparr>llm = l, system_prompt = prompt, tools = build_registry ts,
      conversation_history = [], max_iterations = n\<rparr>"

definition tool_calling_init ::
  "(message list \<Rightarrow> string) \<Rightarrow> string \<Rightarrow> tool list \<Rightarrow> tool_calling_agent" where
  "tool_calling_init l prompt ts =
     \<lparr>tc_model = l, tc_system_prompt = prompt, tc_tools = build_registry ts,
      tc_conversation_history = []\<rparr>"

definition reset_conversation :: "react_agent \<Rightarrow> react_agent" where
  "reset_conversation a = a\<lparr>conversation_history := []\<rparr>"

definition tc_reset_conversation :: "tool_calling_agent \<Rightarrow> tool_calling_agent" where
  "tc_reset_conversation a = a\<lparr>tc_conversation_history := []\<rparr>"

definition tools_block :: "pylib \<Rightarrow> pyval list \<Rightarrow> string" where
  "tools_block L tools_json =
     ''<tools>'' @ [CHR 0x0A] @ json_dumps_indent L (PList tools_json) @ [CHR 0x0A] @ ''</tools>''"

text \<open>
  \<^verbatim>\<open>ReActAgent.format_tools_for_prompt\<close>: a specification that does not parse
  raises.
\<close>

fun load_specifications :: "pylib \<Rightarrow> (string \<times> tool) list \<Rightarrow> exn + pyval list" where
  "load_specifications L [] = Inr []"
| "load_specifications L ((k, t) # rest) =
     (case json_loads L (tool_specification t) of
        None \<Rightarrow> Inl JSONDecodeError
      | Some j \<Rightarrow>
          (case load_specifications L rest of
             Inl e \<Rightarrow> Inl e
           | Inr js \<Rightarrow> Inr (j # js)))"

definition format_tools_for_prompt :: "pylib \<Rightarrow> (string \<times> tool) list \<Rightarrow> exn + string" where
  "format_tools_for_prompt L registry =
     (case load_specifications L registry of
        Inl e \<Rightarrow> Inl e
      | Inr tools_json \<Rightarrow> Inr (tools_block L tools_json))"

text \<open>
  \<^verbatim>\<open>ToolCallingAgent.format_tools_for_prompt\<close>: a specification that does not parse
  is replaced by a fallback record (a \<^verbatim>\<open>Tool\<close> has no attribute
  \<^verbatim>\<open>description\<close>).
\<close>

definition fallback_specification :: "tool \<Rightarrow> pyval" where
  "fallback_specification t =
     PDict [(''name'', PStr (tool_name t)),
            (''description'', PStr ''No description available''),
            (''parameters'', PDict [(''properties'', PDict [])])]"

definition tc_format_tools_for_prompt :: "pylib \<Rightarrow> (string \<times> tool) list \<Rightarrow> string" where
  "tc_format_tools_for_prompt L registry =
     tools_block L
       (map (\<lambda>(k, t). case json_loads L (tool_specification t) of
                         None \<Rightarrow> fallback_specification t
                       | Some j \<Rightarrow> j) registry)"

text \<open>
  One entry of \<^verbatim>\<open>tool_results\<close>: \<^verbatim>\<open>tool\<close>, \<^verbatim>\<open>arguments\<close>, \<^verbatim>\<open>result\<close>.
  \<^verbatim>\<open>tool_call.get("arguments")\<close> is read after the call: it is the dictionary the
  dispatcher converted in place when the key is present, and \<^verbatim>\<open>None\<close> otherwise.
\<close>

type_synonym tool_result = "pyval \<times> pyval \<times> pyval"

definition arguments_after :: "pyval \<Rightarrow> pyval \<Rightarrow> exn + pyval" where
  "arguments_after tool_call arguments' =
     (case tool_call of
        PDict d \<Rightarrow> Inr (if ''arguments'' \<in> set (map fst d) then arguments' else PNone)
      | _ \<Rightarrow> Inl AttributeError)"

text \<open>
  The loop \<^verbatim>\<open>for i, tool_call in enumerate(tool_calls)\<close> of both \<^verbatim>\<open>run\<close> methods,
  over the agent's \<^verbatim>\<open>execute_tool\<close>. An exception ends the loop and the run.
\<close>

fun execute_calls ::
  "(pyval \<Rightarrow> exn + (pyval \<times> pyval)) \<Rightarrow> pyval list \<Rightarrow> tool_result list \<Rightarrow> event list \<Rightarrow>
   (exn + tool_result list) \<times> event list" where
  "execute_calls exec [] tool_results trace = (Inr tool_results, trace)"
| "execute_calls exec (tool_call # rest) tool_results trace =
     (case exec tool_call of
        Inl e \<Rightarrow> (Inl e, trace @ [Dispatch tool_call])
      | Inr (result, arguments') \<Rightarrow>
          (case dict_get tool_call ''name'' PNone of
             Inl e \<Rightarrow> (Inl e, trace @ [Dispatch tool_call])
           | Inr name \<Rightarrow>
               (case arguments_after tool_call arguments' of
                  Inl e \<Rightarrow> (Inl e, trace @ [Dispatch tool_call])
                | Inr arguments \<Rightarrow>
                    execute_calls exec rest (tool_results @ [(name, arguments, result)])
                      (trace @ [Dispatch tool_call]))))"

text \<open>
  The text of one result: \<^verbatim>\<open>str(result)\<close>, replaced by the indented JSON text for
  a dictionary or a list (\<^verbatim>\<open>json.dumps\<close> does not fail on the values of the model).
\<close>

definition result_str :: "pylib \<Rightarrow> pyval \<Rightarrow> string" where
  "result_str L result =
     (case result of
        PDict d \<Rightarrow> json_dumps_indent L result
      | PList xs \<Rightarrow> json_dumps_indent L result
      | _ \<Rightarrow> fmt L result)"

definition result_line :: "pylib \<Rightarrow> tool_result \<Rightarrow> string" where
  "result_line L res =
     (case res of (name, arguments, result) \<Rightarrow>
        ''- '' @ fmt L name @ json_dumps L arguments @ '': '' @ result_str L result @ [CHR 0x0A])"

definition results_text :: "pylib \<Rightarrow> tool_result list \<Rightarrow> string" where
  "results_text L tool_results =
     foldl (\<lambda>text res. text @ result_line L res) (''Tool results:'' @ [CHR 0x0A]) tool_results"

definition sentinel :: string where
  "sentinel = ''Max iterations reached without a final response.''"

text \<open>
  The result of a run: the value returned or the exception raised, the conversation
  history afterwards, and the events of the run.
\<close>

type_synonym run_result = "(exn + string) \<times> message list \<times> event list"

text \<open>
  The \<^verbatim>\<open>while\<close> loop of \<^verbatim>\<open>ReActAgent.run\<close>; \<open>history\<close> is
  \<^verbatim>\<open>self.conversation_history\<close>, \<open>messages\<close> the working message list.
\<close>

function react_loop ::
  "pylib \<Rightarrow> react_agent \<Rightarrow> message list \<Rightarrow> int \<Rightarrow> message list \<Rightarrow> event list \<Rightarrow> run_result" where
  "react_loop L a history iterations messages trace =
     (if iterations < max_iterations a then
        (let model_response = llm a messages;
             trace1 = trace @ [Completion messages]
         in case extract_final_response model_response of
              Some final_response \<Rightarrow>
                (Inr final_response,
                 history @ [\<lparr>role = ''assistant'', content = model_response\<rparr>], trace1)
            | None \<Rightarrow>
                (case extract_tool_calls L model_response of
                   Inl e \<Rightarrow> (Inl e, history, trace1)
                 | Inr tool_calls \<Rightarrow>
                     if tool_calls = [] then
                       (Inr model_response,
                        history @ [\<lparr>role = ''assistant'', content = model_response\<rparr>], trace1)
                     else
                       (case execute_calls (react_execute_tool L (tools a)) tool_calls [] trace1 of
                          (Inl e, trace2) \<Rightarrow> (Inl e, history, trace2)
                        | (Inr tool_results, trace2) \<Rightarrow>
                            react_loop L a history (iterations + 1)
                              (messages @
                                 [\<lparr>role = ''assistant'', content = model_response\<rparr>,
                                  \<lparr>role = ''user'', content = results_text L tool_results\<rparr>])
                              trace2)))
      else (Inr sentinel, history, trace))"
  by pat_completeness auto
termination
  by (relation "measure (\<lambda>(L, a, history, iterations, messages, trace).
                            nat (max_iterations a - iterations))") auto

declare react_loop.simps [simp del]

definition system_message :: "string \<Rightarrow> string \<Rightarrow> message" where
  "system_message prompt tools_text =
     \<lparr>role = ''system'', content = prompt @ [CHR 0x0A, CHR 0x0A] @ tools_text\<rparr>"

definition react_run :: "pylib \<Rightarrow> react_agent \<Rightarrow> string \<Rightarrow> run_result" where
  "react_run L a user_input =
     (let history = conversation_history a @ [\<lparr>role = ''user'', content = user_input\<rparr>]
      in case format_tools_for_prompt L (tools a) of
           Inl e \<Rightarrow> (Inl e, history, [])
         | Inr tools_text \<Rightarrow>
             react_loop L a history 0
               (system_message (system_prompt a) tools_text # history) [])"

text \<open>\<^verbatim>\<open>ToolCallingAgent.run\<close>.\<close>

definition tool_calling_run :: "pylib \<Rightarrow> tool_calling_agent \<Rightarrow> string \<Rightarrow> run_result" where
  "tool_calling_run L a user_input =
     (let history = tc_conversation_history a @ [\<lparr>role = ''user'', content = user_input\<rparr>];
          messages =
            system_message (tc_system_prompt a) (tc_format_tools_for_prompt L (tc_tools a))
            # history;
          model_response = tc_model a messages;
          trace1 = [Completion messages]
      in case extract_tool_calls L model_response of
           Inl e \<Rightarrow> (Inl e, history, trace1)
         | Inr tool_calls \<Rightarrow>
             if tool_calls = [] then
               (Inr model_response,
                history @ [\<lparr>role = ''assistant'', content = model_response\<rparr>], trace1)
             else
               (case execute_calls (tool_calling_execute_tool L (tc_tools a)) tool_calls [] trace1 of
                  (Inl e, trace2) \<Rightarrow> (Inl e, history, trace2)
                | (Inr tool_results, trace2) \<Rightarrow>
                    (let messages2 =
                           messages @
                             [\<lparr>role = ''assistant'', content = model_response\<rparr>,
                              \<lparr>role = ''user'', content = results_text L tool_results\<rparr>];
                         final_response = tc_model a messages2
                     in (Inr final_response,
                         history @ [\<lparr>role = ''assistant'', content = final_response\<rparr>],
                         trace2 @ [Completion messages2]))))"

text \<open>
  The agent after a run: \<^verbatim>\<open>run\<close> assigns to no attribute and appends only to
  \<^verbatim>\<open>self.conversation_history\<close>.
\<close>

definition react_after_run :: "pylib \<Rightarrow> react_agent \<Rightarrow> string \<Rightarrow> react_agent" where
  "react_after_run L a user_input =
     a\<lparr>conversation_history := fst (snd (react_run L a user_input))\<rparr>"

definition tool_calling_after_run ::
  "pylib \<Rightarrow> tool_calling_agent \<Rightarrow> string \<Rightarrow> tool_calling_agent" where
  "tool_calling_after_run L a user_input =
     a\<lparr>tc_conversation_history := fst (snd (tool_calling_run L a user_input))\<rparr>"

text \<open>The invariant of the registry: every key is the name of the tool stored under it.\<close>

definition registry_invariant :: "(string \<times> tool) list \<Rightarrow> bool" where
  "registry_invariant registry = list_all (\<lambda>(k, t). tool_name t = k) registry"

section \<open>The registry\<close>

lemma map_of_dict_set: "map_of (dict_set d k v) k' = (if k' = k then Some v else map_of d k')"
  by (induction d k v rule: dict_set.induct) auto

lemma find_append_case:
  "find P (xs @ ys) = (case find P xs of None \<Rightarrow> find P ys | Some x \<Rightarrow> Some x)"
  by (induction xs) auto

lemma map_of_foldl_dict_set:
  "map_of (foldl (\<lambda>d t. dict_set d (f t) t) d0 ts) n =
     (case find (\<lambda>t. f t = n) (rev ts) of Some t \<Rightarrow> Some t | None \<Rightarrow> map_of d0 n)"
proof (induction ts arbitrary: d0)
  case Nil
  then show ?case by simp
next
  case (Cons t ts)
  show ?case
    by (simp add: Cons.IH map_of_dict_set find_append_case split: option.splits)
qed

lemma map_of_build_registry:
  "map_of (build_registry ts) n = find (\<lambda>t. tool_name t = n) (rev ts)"
  by (simp add: build_registry_def map_of_foldl_dict_set split: option.splits)

lemma registry_invariant_dict_set:
  "registry_invariant d \<Longrightarrow> registry_invariant (dict_set d (tool_name t) t)"
  by (induction d "tool_name t" t rule: dict_set.induct) (auto simp: registry_invariant_def)

lemma registry_invariant_foldl:
  "registry_invariant d \<Longrightarrow> registry_invariant (foldl (\<lambda>d t. dict_set d (tool_name t) t) d ts)"
  by (induction ts arbitrary: d) (auto simp: registry_invariant_dict_set)

lemma registry_invariant_build: "registry_invariant (build_registry ts)"
  unfolding build_registry_def
  by (rule registry_invariant_foldl) (simp add: registry_invariant_def)

text \<open>
  Claim C10. In the registry of an agent constructed from a tool list, a name is
  mapped to the last tool of the list with that name (an earlier tool of the same name
  is shadowed, and nothing is raised); every key of the registry is the name of the
  tool stored under it; and neither \<^verbatim>\<open>run\<close> nor \<^verbatim>\<open>reset_conversation\<close> changes
  the registry, for both agents.
\<close>

theorem registry_last_registration_wins:
  "map_of (tools (react_init l p ts n)) name = find (\<lambda>t. tool_name t = name) (rev ts)
   \<and> map_of (tc_tools (tool_calling_init l p ts)) name = find (\<lambda>t. tool_name t = name) (rev ts)
   \<and> registry_invariant (tools (react_init l p ts n))
   \<and> registry_invariant (tc_tools (tool_calling_init l p ts))
   \<and> tools (react_after_run L a user_input) = tools a
   \<and> tools (reset_conversation a) = tools a
   \<and> tc_tools (tool_calling_after_run L b user_input) = tc_tools b
   \<and> tc_tools (tc_reset_conversation b) = tc_tools b"
  by (simp add: react_init_def tool_calling_init_def map_of_build_registry
      registry_invariant_build react_after_run_def reset_conversation_def
      tool_calling_after_run_def tc_reset_conversation_def)

text \<open>
  Two tools registered under the name \<^verbatim>\<open>add\<close>: the registry answers with the
  second one.
\<close>

theorem registry_last_registration_wins_witness:
  "map_option (\<lambda>t. tool_specification t)
     (map_of
        (tools (react_init (\<lambda>m. '''') ''''
           [\<lparr>tool_name = ''add'', tool_function = (\<lambda>x. Inr (PInt 1)), tool_specification = ''first''\<rparr>,
            \<lparr>tool_name = ''add'', tool_function = (\<lambda>x. Inr (PInt 2)), tool_specification = ''second''\<rparr>]
           10))
        ''add'')
   = Some ''second''"
  using registry_last_registration_wins
    [of "\<lambda>m. ''''" "''''"
        "[\<lparr>tool_name = ''add'', tool_function = (\<lambda>x. Inr (PInt 1)), tool_specification = ''first''\<rparr>,
          \<lparr>tool_name = ''add'', tool_function = (\<lambda>x. Inr (PInt 2)), tool_specification = ''second''\<rparr>]"
        10 "''add''"]
  by simp

section \<open>Coercion leaves matching and undeclared arguments alone\<close>

text \<open>
  The type a \<^verbatim>\<open>properties\<close> dictionary declares for a parameter: the converter of
  \<open>type_mapping\<close> for the tag under \<^verbatim>\<open>properties[k]["type"]\<close>, when the entry is a
  dictionary and the tag a string of the table.
\<close>

definition declared_type :: "(string \<times> pyval) list \<Rightarrow> string \<Rightarrow> pytype option" where
  "declared_type props k =
     (case map_of props k of
        Some (PDict p) \<Rightarrow>
          (case map_of p ''type'' of
             Some (PStr tag) \<Rightarrow> map_of type_mapping tag
           | _ \<Rightarrow> None)
      | _ \<Rightarrow> None)"



lemma coerce_arg_declared:
  assumes "declared_type props k = Some ty"
  shows "coerce_arg L (PDict props) k v = try_convert L ty v"
proof -
  from assms obtain p tag where p: "map_of props k = Some (PDict p)"
    and tag: "map_of p ''type'' = Some (PStr tag)" and ty: "map_of type_mapping tag = Some ty"
    by (auto simp: declared_type_def split: option.splits pyval.splits)
  from p have k: "k \<in> set (map fst props)" by (metis map_of_eq_None_iff option.distinct(1) set_map)
  from tag have t: "''type'' \<in> set (map fst p)" by (metis map_of_eq_None_iff option.distinct(1) set_map)
  show ?thesis
    using p tag ty k t by (simp add: coerce_arg_def lookup_type_def)
qed








section \<open>Example data\<close>

text \<open>
  The tool \<^verbatim>\<open>add_two_numbers(a: int, b: int) -> int\<close> of \<^verbatim>\<open>tests/react_agent.py\<close>,
  which returns \<^verbatim>\<open>a + b\<close>. The call is given where the examples use it: on two
  integers, and on a float and a string, where \<^verbatim>\<open>+\<close> raises \<^verbatim>\<open>TypeError\<close> with
  the message shown.
\<close>

definition add_call :: "pyval \<Rightarrow> string + pyval" where
  "add_call arguments =
     (case arguments of
        PDict d \<Rightarrow>
          (case (map_of d ''a'', map_of d ''b'') of
             (Some (PInt x), Some (PInt y)) \<Rightarrow> Inr (PInt (x + y))
           | (Some (PFloat x), Some (PStr y)) \<Rightarrow>
               Inl (''unsupported operand type(s) for +: 'float' and 'str'' @ [CHR 0x27])
           | _ \<Rightarrow> Inl ''unsupported arguments'')
      | _ \<Rightarrow> Inl ''unsupported arguments'')"

definition add_two_numbers :: pyfunction where
  "add_two_numbers =
     \<lparr>fn_name = Some ''add_two_numbers'',
      fn_doc = Some ''Used to add two numbers together'',
      fn_params = [(''a'', Some (Named ''int'')), (''b'', Some (Named ''int''))],
      fn_return = Some (Named ''int''),
      fn_call = add_call\<rparr>"

definition add_metadata :: pyval where
  "add_metadata =
     PDict [(''name'', PStr ''add_two_numbers''),
            (''description'', PStr ''Used to add two numbers together''),
            (''parameters'',
               PDict [(''properties'',
                  PDict [(''a'', PDict [(''type'', PStr ''int'')]),
                         (''b'', PDict [(''type'', PStr ''int'')])])])]"

definition add_specification :: string where
  \<open>add_specification =
     ''{"name": "add_two_numbers", "description": "Used to add two numbers together", "parameters": {"properties": {"a": {"type": "int"}, "b": {"type": "int"}}}}''\<close>

definition add_tool :: tool where
  "add_tool =
     \<lparr>tool_name = ''add_two_numbers'', tool_function = add_call,
      tool_specification = add_specification\<rparr>"

text \<open>Payloads of tool-call spans and the values \<^verbatim>\<open>json.loads\<close> returns for them.\<close>

definition add_call_text :: string where
  \<open>add_call_text = ''{"name": "add_two_numbers", "arguments": {"a": "10", "b": "20"}}''\<close>

definition add_call_value :: pyval where
  "add_call_value =
     PDict [(''name'', PStr ''add_two_numbers''),
            (''arguments'', PDict [(''a'', PStr ''10''), (''b'', PStr ''20'')])]"

definition overflow_call_text :: string where
  \<open>overflow_call_text = ''{"name": "add_two_numbers", "arguments": {"a": 1e999, "b": "2"}}''\<close>

definition overflow_call_value :: pyval where
  "overflow_call_value =
     PDict [(''name'', PStr ''add_two_numbers''),
            (''arguments'', PDict [(''a'', PFloat (FInf False)), (''b'', PStr ''2'')])]"

definition unknown_call_text :: string where
  \<open>unknown_call_text = ''{"name": "lookup", "arguments": {}}''\<close>

definition unknown_call_value :: pyval where
  "unknown_call_value = PDict [(''name'', PStr ''lookup''), (''arguments'', PDict [])]"

text \<open>
  A library for the examples: each function is given on the texts and values the
  examples use, with the result the interpreter gives there.
\<close>

definition sample_json_loads :: "string \<Rightarrow> pyval option" where
  \<open>sample_json_loads =
     map_of [(''5'', PInt 5),
             (''["name", "arguments"]'', PList [PStr ''name'', PStr ''arguments'']),
             (''{"name": "add"}'', PDict [(''name'', PStr ''add'')]),
             (''{"name": ["x"], "arguments": {}}'',
              PDict [(''name'', PList [PStr ''x'']), (''arguments'', PDict [])]),
             (add_call_text, add_call_value),
             (overflow_call_text, overflow_call_value),
             (unknown_call_text, unknown_call_value),
             (add_specification, add_metadata)]\<close>

definition sample_json_dumps :: "pyval \<Rightarrow> string" where
  \<open>sample_json_dumps v =
     (case map_of
             [(add_metadata, add_specification),
              (PDict [(''a'', PInt 10), (''b'', PInt 20)], ''{"a": 10, "b": 20}''),
              (PDict [], ''{}'')] v of
        Some text \<Rightarrow> text
      | None \<Rightarrow> [])\<close>

definition sample_str_of :: "pyval \<Rightarrow> string" where
  "sample_str_of v =
     (case map_of [(PInt 30, ''30''), (PNone, ''None''), (PInt 5, ''5'')] v of
        Some text \<Rightarrow> text
      | None \<Rightarrow> [])"

definition join_lines :: "string list \<Rightarrow> string" where
  "join_lines ls = (case ls of [] \<Rightarrow> [] | l # rest \<Rightarrow> l @ concat (map (\<lambda>x. CHR 0x0A # x) rest))"

definition add_tools_json :: string where
  \<open>add_tools_json =
     join_lines
       [''['',
        ''  {'',
        ''    "name": "add_two_numbers",'',
        ''    "description": "Used to add two numbers together",'',
        ''    "parameters": {'',
        ''      "properties": {'',
        ''        "a": {'',
        ''          "type": "int"'',
        ''        },'',
        ''        "b": {'',
        ''          "type": "int"'',
        ''        }'',
        ''      }'',
        ''    }'',
        ''  }'',
        '']'']\<close>

definition sample_json_dumps_indent :: "pyval \<Rightarrow> string" where
  "sample_json_dumps_indent v =
     (case map_of [(PList [], ''[]''), (PList [add_metadata], add_tools_json)] v of
        Some text \<Rightarrow> text
      | None \<Rightarrow> [])"

definition sample_lib :: pylib where
  "sample_lib =
     \<lparr>json_loads = sample_json_loads, json_dumps = sample_json_dumps,
      json_dumps_indent = sample_json_dumps_indent,
      str_of = sample_str_of,
      float_of_str = map_of [(''1.5'', FFin (3 / 2))]\<rparr>"

lemmas sample_simps = sample_lib_def sample_json_loads_def add_call_text_def add_call_value_def
  overflow_call_text_def overflow_call_value_def unknown_call_text_def unknown_call_value_def
  add_specification_def add_metadata_def

lemmas scan_simps = extract_tool_calls_def re_search_span_def strip_def is_space_def
  has_call_keys_def

lemmas coerce_simps = convert_argument_types_def has_properties_def coerce_arg_def
  lookup_type_def type_mapping_def try_convert_def

section \<open>Payloads that are not dictionaries\<close>

text \<open>
  Claim C2 says that every span whose payload is not a dictionary with both keys is
  dropped and that the extractor never raises. The payload \<^verbatim>\<open>5\<close> parses (to an
  integer), the test \<^verbatim>\<open>"name" in tool_call\<close> raises \<^verbatim>\<open>TypeError\<close> on it, and only
  \<^verbatim>\<open>JSONDecodeError\<close> is caught: the exception leaves \<^verbatim>\<open>extract_tool_calls\<close>. The
  payload \<^verbatim>\<open>["name", "arguments"]\<close> passes the two tests as a list and is returned as
  a record.
\<close>

theorem extract_tool_calls_raises_on_scalar_payload:
  \<open>extract_tool_calls sample_lib ''<tool_call>5</tool_call>'' = Inl TypeError
   \<and> extract_tool_calls sample_lib ''<tool_call>["name", "arguments"]</tool_call>''
       = Inr [PList [PStr ''name'', PStr ''arguments'']]\<close>
  by (simp add: scan_simps sample_simps)

section \<open>Conversions that raise \<^verbatim>\<open>OverflowError\<close>\<close>

text \<open>
  Claim C4 says that a conversion that fails is caught, the value kept and the other
  arguments still processed. \<^verbatim>\<open>int\<close> of an infinite float and \<^verbatim>\<open>float\<close> of an
  integer beyond the range of a double raise \<^verbatim>\<open>OverflowError\<close>, which is neither
  \<^verbatim>\<open>ValueError\<close> nor \<^verbatim>\<open>TypeError\<close>: the exception leaves
  \<^verbatim>\<open>convert_argument_types\<close>, and the argument after it (a string of digits declared
  \<^verbatim>\<open>int\<close>) is left unconverted.
\<close>

theorem conversion_overflow_escapes:
  "convert_argument_types L (PDict [(''a'', PFloat (FInf False)), (''b'', PStr ''2'')]) add_metadata
     = Inl (OverflowError, PDict [(''a'', PFloat (FInf False)), (''b'', PStr ''2'')])
   \<and> convert_argument_types L (PDict [(''x'', PInt (10 ^ 400)), (''y'', PStr ''2'')])
        (PDict [(''parameters'', PDict [(''properties'',
            PDict [(''x'', PDict [(''type'', PStr ''float'')]),
                   (''y'', PDict [(''type'', PStr ''int'')])])])])
     = Inl (OverflowError, PDict [(''x'', PInt (10 ^ 400)), (''y'', PStr ''2'')])"
  by (simp add: coerce_simps add_metadata_def float_overflows_def)

text \<open>
  Claim C3 says that \<^verbatim>\<open>execute_tool\<close> never raises. On the call
  \<^verbatim>\<open>{"name": "add_two_numbers", "arguments": {"a": 1e999, "b": "2"}}\<close>
  (\<^verbatim>\<open>json.loads\<close> reads \<^verbatim>\<open>1e999\<close> as the infinite float) the conversion raises
  \<^verbatim>\<open>OverflowError\<close>, which the \<^verbatim>\<open>except\<close> clause of
  \<^verbatim>\<open>ToolCallingAgent.execute_tool\<close> does not list: the exception leaves the method.
  \<^verbatim>\<open>ReActAgent.execute_tool\<close> catches \<^verbatim>\<open>Exception\<close> there and returns the text of
  the tool's failure.
\<close>

theorem tool_calling_execute_tool_raises:
  "tool_calling_execute_tool sample_lib (build_registry [add_tool]) overflow_call_value
     = Inl OverflowError
   \<and> react_execute_tool sample_lib (build_registry [add_tool]) overflow_call_value
     = Inr (PStr (''Error executing add_two_numbers: unsupported operand type(s) for +: 'float' and 'str''
                   @ [CHR 0x27]),
            PDict [(''a'', PFloat (FInf False)), (''b'', PStr ''2'')])"
  by (simp add: tool_calling_execute_tool_def react_execute_tool_def execute_tool_with_def
        build_registry_def add_tool_def lookup_tool_def validate_arguments_def sample_simps
        coerce_simps tool_calling_caught_def invoke_def
        execution_error_message_def fmt_def add_call_def)

section \<open>Coercion to \<^verbatim>\<open>bool\<close>\<close>

lemma falsy_values:
  "(\<not> truthy v) =
     (v \<in> {PNone, PBool False, PInt 0, PFloat (FFin 0), PStr [], PList [], PDict []})"
  by (cases v) auto

lemma decorators_coerce_arg_bool:
  assumes "map_of params k = Some (PDict p)" and "map_of p ''type'' = Some (PStr ''bool'')"
    and "\<not> isinstance v TBool"
  shows "decorators_coerce_arg L (PDict params) k v = Inr (PBool (truthy v))"
  using assms
  by (simp add: decorators_coerce_arg_def index_type_def lookup_type_def type_converters_def)

text \<open>
  Claim C9, as the code has it. In \<^verbatim>\<open>convert_argument_types\<close> of the two agents, an
  argument declared \<^verbatim>\<open>bool\<close> or \<^verbatim>\<open>boolean\<close> whose value is not a boolean becomes
  the truth value of that value; in \<^verbatim>\<open>convert_argument_types\<close> of
  \<^verbatim>\<open>decorators.py\<close> the same holds for the tag \<^verbatim>\<open>bool\<close>. The truth value of a
  string is whether it is not empty (so \<^verbatim>\<open>"false"\<close>, \<^verbatim>\<open>"False"\<close> and \<^verbatim>\<open>"0"\<close> give
  \<^verbatim>\<open>True\<close>), and the values with truth value \<^verbatim>\<open>False\<close> are \<^verbatim>\<open>None\<close>,
  \<^verbatim>\<open>False\<close>, \<^verbatim>\<open>0\<close>, \<^verbatim>\<open>0.0\<close> and the empty string, list and dictionary.
\<close>

theorem bool_coercion_is_truthiness:
  "((tag = ''bool'' \<or> tag = ''boolean'') \<and> map_of props k = Some (PDict p)
      \<and> map_of p ''type'' = Some (PStr tag) \<and> \<not> isinstance v TBool
     \<longrightarrow> coerce_arg L (PDict props) k v = Inr (PBool (truthy v)))
   \<and> (map_of props k = Some (PDict p) \<and> map_of p ''type'' = Some (PStr ''bool'')
        \<and> \<not> isinstance v TBool
     \<longrightarrow> decorators_coerce_arg L (PDict props) k v = Inr (PBool (truthy v)))
   \<and> truthy (PStr s) = (s \<noteq> [])
   \<and> truthy (PStr ''false'') \<and> truthy (PStr ''False'') \<and> truthy (PStr ''0'')
   \<and> (\<not> truthy v) =
       (v \<in> {PNone, PBool False, PInt 0, PFloat (FFin 0), PStr [], PList [], PDict []})"
proof (intro conjI impI)
  assume h: "(tag = ''bool'' \<or> tag = ''boolean'') \<and> map_of props k = Some (PDict p)
      \<and> map_of p ''type'' = Some (PStr tag) \<and> \<not> isinstance v TBool"
  then have "declared_type props k = Some TBool"
    by (auto simp: declared_type_def type_mapping_def)
  with h show "coerce_arg L (PDict props) k v = Inr (PBool (truthy v))"
    by (simp add: coerce_arg_declared try_convert_def)
next
  assume "map_of props k = Some (PDict p) \<and> map_of p ''type'' = Some (PStr ''bool'')
        \<and> \<not> isinstance v TBool"
  then show "decorators_coerce_arg L (PDict props) k v = Inr (PBool (truthy v))"
    by (simp add: decorators_coerce_arg_bool)
next
  show "(\<not> truthy v) =
       (v \<in> {PNone, PBool False, PInt 0, PFloat (FFin 0), PStr [], PList [], PDict []})"
    by (rule falsy_values)
qed simp_all

text \<open>
  The string \<^verbatim>\<open>"false"\<close> declared \<^verbatim>\<open>boolean\<close> becomes \<^verbatim>\<open>True\<close> in the agents; the
  empty string declared \<^verbatim>\<open>bool\<close> becomes \<^verbatim>\<open>False\<close> in \<^verbatim>\<open>decorators.py\<close>.
\<close>

theorem bool_coercion_is_truthiness_witness:
  "\<forall>L. coerce_arg L (PDict [(''flag'', PDict [(''type'', PStr ''boolean'')])]) ''flag'' (PStr ''false'')
         = Inr (PBool True)
     \<and> decorators_coerce_arg L (PDict [(''flag'', PDict [(''type'', PStr ''bool'')])]) ''flag'' (PStr '''')
         = Inr (PBool False)"
proof
  fix L
  show "coerce_arg L (PDict [(''flag'', PDict [(''type'', PStr ''boolean'')])]) ''flag'' (PStr ''false'')
         = Inr (PBool True)
     \<and> decorators_coerce_arg L (PDict [(''flag'', PDict [(''type'', PStr ''bool'')])]) ''flag'' (PStr '''')
         = Inr (PBool False)"
    using bool_coercion_is_truthiness
        [of "''boolean''" "[(''flag'', PDict [(''type'', PStr ''boolean'')])]" "''flag''"
            "[(''type'', PStr ''boolean'')]" "PStr ''false''" L]
      bool_coercion_is_truthiness
        [of "''bool''" "[(''flag'', PDict [(''type'', PStr ''bool'')])]" "''flag''"
            "[(''type'', PStr ''bool'')]" "PStr ''''" L]
    by simp
qed

text \<open>
  The table of \<^verbatim>\<open>decorators.py\<close> has no entry \<^verbatim>\<open>boolean\<close>: there the claim fails,
  the lookup raises \<^verbatim>\<open>KeyError\<close>.
\<close>

theorem decorators_boolean_tag_counterexample:
  "decorators_convert_argument_types sample_lib (PDict [(''flag'', PStr ''false'')])
     (PDict [(''parameters'', PDict [(''properties'',
        PDict [(''flag'', PDict [(''type'', PStr ''boolean'')])])])])
   = Inl (KeyError, PDict [(''flag'', PStr ''false'')])"
  by (simp add: decorators_convert_argument_types_def decorators_coerce_arg_def index_type_def
      lookup_type_def type_converters_def)

section \<open>Specifications derived from callables\<close>

text \<open>The dictionary \<^verbatim>\<open>metadata["parameters"]["properties"]\<close> of a specification.\<close>

definition spec_properties :: "pyval \<Rightarrow> (string \<times> pyval) list" where
  "spec_properties metadata =
     (case getitem metadata ''parameters'' of
        Inr parameters \<Rightarrow>
          (case getitem parameters ''properties'' of
             Inr (PDict props) \<Rightarrow> props
           | _ \<Rightarrow> [])
      | _ \<Rightarrow> [])"

text \<open>
  A function in the style of \<^verbatim>\<open>def scale(value, factor: int)\<close>: the first parameter
  has no annotation.
\<close>

definition partly_annotated :: pyfunction where
  "partly_annotated =
     \<lparr>fn_name = Some ''scale'', fn_doc = None,
      fn_params = [(''value'', None), (''factor'', Some (Named ''int''))],
      fn_return = None, fn_call = (\<lambda>arguments. Inr PNone)\<rparr>"

lemma dict_set_keys: "fst ` set (dict_set d k v) = insert k (fst ` set d)"
  by (induction d k v rule: dict_set.induct) auto

lemma dict_set_values: "(k', v') \<in> set (dict_set d k v) \<Longrightarrow> (k', v') = (k, v) \<or> (k', v') \<in> set d"
  by (induction d k v rule: dict_set.induct) (auto split: if_splits)

lemma parameter_types_keys:
  "parameter_types anns acc = Inr props \<Longrightarrow>
   fst ` set props = fst ` set acc \<union> (fst ` set anns - {''return''})"
proof (induction anns acc rule: parameter_types.induct)
  case (1 acc)
  then show ?case by simp
next
  case (2 param_name param_type rest acc)
  show ?case
  proof (cases "param_name = ''return''")
    case True
    with 2 show ?thesis by auto
  next
    case False
    with "2.prems" obtain n where n: "param_type = Named n"
      and r: "parameter_types rest (dict_set acc param_name (PDict [(''type'', PStr n)])) = Inr props"
      by (auto split: annotation.splits)
    from "2.IH"(1) [OF False n r] False show ?thesis
      by (auto simp: dict_set_keys)
  qed
qed

lemma parameter_types_values:
  "parameter_types anns acc = Inr props \<Longrightarrow> (k, v) \<in> set props \<Longrightarrow>
   (k, v) \<in> set acc \<or> (\<exists>n. v = PDict [(''type'', PStr n)] \<and> (k, Named n) \<in> set anns)"
proof (induction anns acc rule: parameter_types.induct)
  case (1 acc)
  then show ?case by simp
next
  case (2 param_name param_type rest acc)
  show ?case
  proof (cases "param_name = ''return''")
    case True
    with 2 show ?thesis by auto
  next
    case False
    with "2.prems" obtain n where n: "param_type = Named n"
      and r: "parameter_types rest (dict_set acc param_name (PDict [(''type'', PStr n)])) = Inr props"
      by (auto split: annotation.splits)
    from "2.IH"(1) [OF False n r "2.prems"(2)] n show ?thesis
      by (auto dest: dict_set_values)
  qed
qed

lemma parameter_types_total:
  "\<forall>(p, a) \<in> set anns. p \<noteq> ''return'' \<longrightarrow> a \<noteq> Unnamed \<Longrightarrow>
   \<exists>props. parameter_types anns acc = Inr props"
  by (induction anns acc rule: parameter_types.induct) (auto split: annotation.splits)

lemma annotations_keys:
  "fst ` set (annotations f) - {''return''} =
   {p. \<exists>a. (p, Some a) \<in> set (fn_params f)} - {''return''}"
  by (auto simp: annotations_def image_iff split: option.splits) force+

lemma annotations_member:
  "(k, t) \<in> set (annotations f) \<Longrightarrow> k \<noteq> ''return'' \<Longrightarrow> (k, Some t) \<in> set (fn_params f)"
  by (auto simp: annotations_def split: option.splits)

lemma spec_properties_metadata:
  "extract_function_metadata f = Inr metadata \<Longrightarrow>
   parameter_types (annotations f) [] = Inr (spec_properties metadata)"
  by (auto simp: extract_function_metadata_def spec_properties_def split: option.splits sum.splits)


text \<open>
  Claim C5, as the code has it. \<^verbatim>\<open>extract_function_metadata\<close> returns a
  specification for every callable that has a name and whose annotations have names.
  The parameter names of the specification are the names of the annotated parameters
  (the keys of \<^verbatim>\<open>__annotations__\<close> without \<^verbatim>\<open>return\<close>), and each is given the
  name of its annotation as type tag: a parameter without annotation does not occur
  in the specification, and no type is inferred for it.
\<close>

theorem specification_parameters_are_annotated_parameters:
  "(fn_name f \<noteq> None \<and> (\<forall>(p, a) \<in> set (fn_params f). a \<noteq> Some Unnamed)
      \<longrightarrow> (\<exists>metadata. extract_function_metadata f = Inr metadata))
   \<and> (extract_function_metadata f = Inr metadata \<longrightarrow>
        set (map fst (spec_properties metadata))
          = {p. \<exists>a. (p, Some a) \<in> set (fn_params f)} - {''return''}
        \<and> (\<forall>(k, v) \<in> set (spec_properties metadata).
              \<exists>n. v = PDict [(''type'', PStr n)] \<and> (k, Some (Named n)) \<in> set (fn_params f)))"
proof (intro conjI impI)
  assume h: "fn_name f \<noteq> None \<and> (\<forall>(p, a) \<in> set (fn_params f). a \<noteq> Some Unnamed)"
  then have "\<forall>(p, a) \<in> set (annotations f). p \<noteq> ''return'' \<longrightarrow> a \<noteq> Unnamed"
    by (auto dest: annotations_member)
  from parameter_types_total [OF this, of "[]"] h
  show "\<exists>metadata. extract_function_metadata f = Inr metadata"
    by (auto simp: extract_function_metadata_def)
next
  assume e: "extract_function_metadata f = Inr metadata"
  note pt = spec_properties_metadata [OF e]
  from parameter_types_keys [OF pt]
  show keys: "set (map fst (spec_properties metadata))
          = {p. \<exists>a. (p, Some a) \<in> set (fn_params f)} - {''return''}"
    by (simp add: annotations_keys)
  show "\<forall>(k, v) \<in> set (spec_properties metadata).
              \<exists>n. v = PDict [(''type'', PStr n)] \<and> (k, Some (Named n)) \<in> set (fn_params f)"
  proof (clarify)
    fix k v
    assume kv: "(k, v) \<in> set (spec_properties metadata)"
    then have "k \<in> set (map fst (spec_properties metadata))" by force
    with keys have nr: "k \<noteq> ''return''" by simp
    from parameter_types_values [OF pt kv] obtain n where
      "v = PDict [(''type'', PStr n)]" and "(k, Named n) \<in> set (annotations f)" by auto
    with nr show "\<exists>n. v = PDict [(''type'', PStr n)] \<and> (k, Some (Named n)) \<in> set (fn_params f)"
      by (auto dest: annotations_member)
  qed
qed

text \<open>The specification of \<^verbatim>\<open>add_two_numbers(a: int, b: int) -> int\<close>.\<close>

theorem specification_parameters_are_annotated_parameters_witness:
  "fn_name add_two_numbers \<noteq> None
   \<and> list_all (\<lambda>(p, a). a \<noteq> Some Unnamed) (fn_params add_two_numbers)
   \<and> extract_function_metadata add_two_numbers = Inr add_metadata
   \<and> set (map fst (spec_properties add_metadata)) = {''a'', ''b''}"
proof -
  have e: "extract_function_metadata add_two_numbers = Inr add_metadata"
    by (simp add: extract_function_metadata_def add_two_numbers_def annotations_def add_metadata_def)
  have "{p. \<exists>a. (p, Some a) \<in> set (fn_params add_two_numbers)} - {''return''} = {''a'', ''b''}"
    by (auto simp: add_two_numbers_def)
  with e specification_parameters_are_annotated_parameters [of add_two_numbers add_metadata]
  show ?thesis by (simp add: add_two_numbers_def)
qed

text \<open>
  The claim as stated fails on a parameter without annotation: it is a declared
  argument of the callable and it is dropped from the specification.
\<close>

theorem unannotated_parameter_counterexample:
  "extract_function_metadata partly_annotated
     = Inr (PDict [(''name'', PStr ''scale''), (''description'', PNone),
                   (''parameters'',
                      PDict [(''properties'', PDict [(''factor'', PDict [(''type'', PStr ''int'')])])])])
   \<and> map fst (fn_params partly_annotated) = [''value'', ''factor'']
   \<and> map fst (spec_properties
        (PDict [(''name'', PStr ''scale''), (''description'', PNone),
                (''parameters'',
                   PDict [(''properties'', PDict [(''factor'', PDict [(''type'', PStr ''int'')])])])]))
       = [''factor'']"
  by (simp add: extract_function_metadata_def partly_annotated_def annotations_def
      spec_properties_def)

section \<open>The scans find the first span\<close>

lemma starts_with_iff: "starts_with p s = (\<exists>r. s = p @ r)"
  by (induction p s rule: starts_with.induct) auto

lemma find_sub_Some:
  "find_sub n s = Some (b, a) \<Longrightarrow> s = b @ n @ a"
proof (induction s arbitrary: b)
  case Nil
  then show ?case by (simp split: if_splits)
next
  case (Cons c cs)
  show ?case
  proof (cases "starts_with n (c # cs)")
    case True
    with Cons.prems have ba: "b = []" "a = drop (length n) (c # cs)" by simp_all
    from True obtain r where r: "c # cs = n @ r" by (auto simp: starts_with_iff)
    have "drop (length n) (c # cs) = r" unfolding r by simp
    with ba r show ?thesis by simp
  next
    case False
    with Cons.prems obtain b' where "find_sub n cs = Some (b', a)" and "b = c # b'"
      by (auto split: option.splits)
    with Cons.IH show ?thesis by simp
  qed
qed

lemma find_sub_first:
  "find_sub n s = Some (b, a) \<Longrightarrow> s = b' @ n @ a' \<Longrightarrow> length b \<le> length b'"
proof (induction s arbitrary: b b')
  case Nil
  then show ?case by (simp split: if_splits)
next
  case (Cons c cs)
  show ?case
  proof (cases "starts_with n (c # cs)")
    case True
    with Cons.prems(1) have "b = []" by simp
    then show ?thesis by simp
  next
    case False
    with Cons.prems(1) obtain b0 where f: "find_sub n cs = Some (b0, a)" and b: "b = c # b0"
      by (auto split: option.splits)
    from False Cons.prems(2) have "b' \<noteq> []" by (auto simp: starts_with_iff)
    then obtain b1 where b1: "b' = c # b1" using Cons.prems(2) by (cases b') auto
    with Cons.prems(2) have "cs = b1 @ n @ a'" by simp
    from Cons.IH [OF f this] b b1 show ?thesis by simp
  qed
qed

lemma find_sub_complete:
  "s = b' @ n @ a' \<Longrightarrow> \<exists>b a. find_sub n s = Some (b, a)"
proof (induction s arbitrary: b')
  case Nil
  then show ?case by simp
next
  case (Cons c cs)
  show ?case
  proof (cases "starts_with n (c # cs)")
    case True
    then show ?thesis by simp
  next
    case False
    with Cons.prems have "b' \<noteq> []" by (auto simp: starts_with_iff)
    then obtain b1 where b1: "b' = c # b1" using Cons.prems by (cases b') auto
    with Cons.prems have "cs = b1 @ n @ a'" by simp
    from Cons.IH [OF this] False show ?thesis by auto
  qed
qed

text \<open>A response that contains a span has a first one, and the scan finds it.\<close>

lemma re_search_span_first:
  assumes "s = pre @ opn @ inner @ cls @ post"
  shows "\<exists>p i q. re_search_span opn cls s = Some (i, q)
           \<and> s = p @ opn @ i @ cls @ q
           \<and> (\<forall>p' r'. s = p' @ opn @ r' \<longrightarrow> length p \<le> length p')
           \<and> (\<forall>i' q'. i @ cls @ q = i' @ cls @ q' \<longrightarrow> length i \<le> length i')"
proof -
  from find_sub_complete [of s pre opn "inner @ cls @ post"] assms
  obtain p rest where f1: "find_sub opn s = Some (p, rest)" by auto
  note s1 = find_sub_Some [OF f1]
  have first1: "\<forall>p' r'. s = p' @ opn @ r' \<longrightarrow> length p \<le> length p'"
    using find_sub_first [OF f1] by blast
  with assms have "length p \<le> length pre" by blast
  with s1 assms obtain mid where "pre = p @ mid"
    by (metis append_eq_append_conv_if append_take_drop_id)
  with s1 assms have eq: "opn @ rest = (mid @ opn) @ inner @ cls @ post"
    by simp
  have "rest = drop (length opn) (opn @ rest)" by simp
  also have "\<dots> = drop (length opn) (mid @ opn) @ inner @ cls @ post"
    unfolding eq by (simp del: append_assoc)
  finally have "rest = (drop (length opn) (mid @ opn) @ inner) @ cls @ post" by simp
  from find_sub_complete [OF this] obtain i q where f2: "find_sub cls rest = Some (i, q)" by auto
  note s2 = find_sub_Some [OF f2]
  have first2: "\<forall>i' q'. i @ cls @ q = i' @ cls @ q' \<longrightarrow> length i \<le> length i'"
    using find_sub_first [OF f2] s2 by blast
  from f1 f2 have "re_search_span opn cls s = Some (i, q)" by (simp add: re_search_span_def)
  with s1 s2 first1 first2 show ?thesis by blast
qed


section \<open>The ReAct loop\<close>

text \<open>The events of a run that are calls of the completion capability.\<close>

fun is_completion :: "event \<Rightarrow> bool" where
  "is_completion (Completion ms) = True"
| "is_completion (Dispatch tc) = False"

text \<open>
  A tool call as the data model has it, as far as the dispatcher depends on it: a
  dictionary whose \<^verbatim>\<open>name\<close> can be looked up in the registry (it is hashable).
\<close>

fun dispatchable :: "pyval \<Rightarrow> bool" where
  "dispatchable (PDict d) = hashable (case map_of d ''name'' of None \<Rightarrow> PNone | Some v \<Rightarrow> v)"
| "dispatchable v = False"

text \<open>
  Claim C6. When the response of the model contains a
  \<^verbatim>\<open><response>...</response>\<close> span, then in any iteration of the loop: the response
  has a first such span (no opening tag starts earlier, and the span ends at the first
  closing tag after it), the loop returns the stripped inner text of that span, the
  history gains the raw response as one assistant message, and the only event of the
  iteration is the completion call: no tool call is extracted or dispatched, whatever
  else the response contains.
\<close>

theorem final_answer_ends_the_loop:
  assumes "llm a messages = pre @ ''<response>'' @ inner @ ''</response>'' @ post"
    and "iterations < max_iterations a"
  shows "\<exists>p i q. llm a messages = p @ ''<response>'' @ i @ ''</response>'' @ q
        \<and> (\<forall>p' r'. llm a messages = p' @ ''<response>'' @ r' \<longrightarrow> length p \<le> length p')
        \<and> (\<forall>i' q'. i @ ''</response>'' @ q = i' @ ''</response>'' @ q' \<longrightarrow> length i \<le> length i')
        \<and> react_loop L a history iterations messages trace
            = (Inr (strip i),
               history @ [\<lparr>role = ''assistant'', content = llm a messages\<rparr>],
               trace @ [Completion messages])"
proof -
  from re_search_span_first [OF assms(1)] obtain p i q where
    rs: "re_search_span ''<response>'' ''</response>'' (llm a messages) = Some (i, q)"
    and sp: "llm a messages = p @ ''<response>'' @ i @ ''</response>'' @ q"
    and f1: "\<forall>p' r'. llm a messages = p' @ ''<response>'' @ r' \<longrightarrow> length p \<le> length p'"
    and f2: "\<forall>i' q'. i @ ''</response>'' @ q = i' @ ''</response>'' @ q' \<longrightarrow> length i \<le> length i'"
    by blast
  from rs have "extract_final_response (llm a messages) = Some (strip i)"
    by (simp add: extract_final_response_def)
  with assms(2) have "react_loop L a history iterations messages trace
            = (Inr (strip i),
               history @ [\<lparr>role = ''assistant'', content = llm a messages\<rparr>],
               trace @ [Completion messages])"
    by (subst react_loop.simps) (simp add: Let_def)
  with sp f1 f2 show ?thesis by blast
qed

subsection \<open>Dispatching every call of a response\<close>

lemma execute_tool_with_dict:
  "execute_tool_with L caught registry tool_call = Inr r \<Longrightarrow> \<exists>d. tool_call = PDict d"
  by (cases tool_call) (simp_all add: execute_tool_with_def)

lemma react_execute_tool_returns:
  "dispatchable tool_call \<Longrightarrow> \<exists>r. react_execute_tool L registry tool_call = Inr r"
  by (cases tool_call)
     (auto simp: react_execute_tool_def execute_tool_with_def lookup_tool_def
        validate_arguments_def split: option.splits sum.splits pyval.splits)

lemma execute_calls_all_return:
  "list_all (\<lambda>tc. (\<exists>d. tc = PDict d) \<and> (\<exists>r. exec tc = Inr r)) calls \<Longrightarrow>
   \<exists>results. execute_calls exec calls acc trace = (Inr results, trace @ map Dispatch calls)
      \<and> length results = length acc + length calls"
proof (induction calls arbitrary: acc trace)
  case Nil
  then show ?case by simp
next
  case (Cons tc calls)
  then obtain d result arguments' where tc: "tc = PDict d" and ex: "exec tc = Inr (result, arguments')"
    by auto
  from Cons.prems have rest: "list_all (\<lambda>tc. (\<exists>d. tc = PDict d) \<and> (\<exists>r. exec tc = Inr r)) calls"
    by simp
  obtain entry where step:
    "execute_calls exec (tc # calls) acc trace
       = execute_calls exec calls (acc @ [entry]) (trace @ [Dispatch tc])"
    using tc ex by (simp add: arguments_after_def)
  from Cons.IH [OF rest, of "acc @ [entry]" "trace @ [Dispatch tc]"] step
  show ?case by simp
qed

lemma dispatchable_returns:
  "dispatchable tc \<Longrightarrow>
   (\<exists>d. tc = PDict d) \<and> (\<exists>r. react_execute_tool L registry tc = Inr r)"
  using react_execute_tool_returns [of tc L registry] by (cases tc) simp_all

lemma react_loop_exhausts:
  assumes no_final: "\<forall>ms. extract_final_response (llm a ms) = None"
    and calls: "\<forall>ms. \<exists>tool_calls. extract_tool_calls L (llm a ms) = Inr tool_calls
                  \<and> tool_calls \<noteq> [] \<and> list_all dispatchable tool_calls"
  shows "\<exists>trace'. react_loop L a history i messages trace = (Inr sentinel, history, trace')
           \<and> length (filter is_completion trace')
               = length (filter is_completion trace) + nat (max_iterations a - i)"
proof (induction "nat (max_iterations a - i)" arbitrary: i messages trace)
  case 0
  then have "\<not> i < max_iterations a" by simp
  then show ?case by (subst react_loop.simps) simp
next
  case (Suc n)
  then have lt: "i < max_iterations a" by simp
  from Suc(2) have n: "n = nat (max_iterations a - (i + 1))" by simp
  from calls obtain tool_calls where
    tcs: "extract_tool_calls L (llm a messages) = Inr tool_calls" "tool_calls \<noteq> []"
      "list_all dispatchable tool_calls" by blast
  have "list_all (\<lambda>tc. (\<exists>d. tc = PDict d) \<and> (\<exists>r. react_execute_tool L (tools a) tc = Inr r)) tool_calls"
    using tcs(3) dispatchable_returns [of _ L "tools a"]
    unfolding list_all_iff by blast
  from execute_calls_all_return [OF this, of "[]" "trace @ [Completion messages]"]
  obtain results where
    ex: "execute_calls (react_execute_tool L (tools a)) tool_calls [] (trace @ [Completion messages])
          = (Inr results, (trace @ [Completion messages]) @ map Dispatch tool_calls)"
    by auto
  let ?messages' = "messages @
         [\<lparr>role = ''assistant'', content = llm a messages\<rparr>,
          \<lparr>role = ''user'', content = results_text L results\<rparr>]"
  let ?trace' = "(trace @ [Completion messages]) @ map Dispatch tool_calls"
  from Suc(1) [OF n, of ?messages' ?trace'] obtain trace'' where
    rec: "react_loop L a history (i + 1) ?messages' ?trace' = (Inr sentinel, history, trace'')"
    and cnt: "length (filter is_completion trace'')
               = length (filter is_completion ?trace') + nat (max_iterations a - (i + 1))"
    by blast
  have nd: "filter is_completion (map Dispatch tool_calls) = []"
    by (induction tool_calls) simp_all
  have step: "react_loop L a history i messages trace
               = react_loop L a history (i + 1) ?messages' ?trace'"
    using lt no_final tcs ex
    by (subst react_loop.simps) (simp add: Let_def)
  from lt have "nat (max_iterations a - i) = Suc (nat (max_iterations a - (i + 1)))" by simp
  with step rec cnt nd show ?case by simp
qed


lemma load_specifications_total:
  "list_all (\<lambda>(k, t). json_loads L (tool_specification t) \<noteq> None) registry \<Longrightarrow>
   \<exists>tools_json. load_specifications L registry = Inr tools_json"
  by (induction registry) auto

section \<open>The single-round agent\<close>

text \<open>
  An entry of \<^verbatim>\<open>tool_results\<close> for a tool call: its name, its arguments after the
  dispatch and the result \<^verbatim>\<open>execute_tool\<close> returned for it.
\<close>

definition result_of ::
  "(pyval \<Rightarrow> exn + (pyval \<times> pyval)) \<Rightarrow> pyval \<Rightarrow> tool_result \<Rightarrow> bool" where
  "result_of exec tool_call res =
     (case res of (name, arguments, result) \<Rightarrow>
        dict_get tool_call ''name'' PNone = Inr name
        \<and> (\<exists>arguments'. exec tool_call = Inr (result, arguments')
              \<and> arguments_after tool_call arguments' = Inr arguments))"

lemma execute_calls_results:
  "list_all (\<lambda>tc. (\<exists>d. tc = PDict d) \<and> (\<exists>r. exec tc = Inr r)) calls \<Longrightarrow>
   \<exists>results. execute_calls exec calls acc trace = (Inr (acc @ results), trace @ map Dispatch calls)
      \<and> list_all2 (result_of exec) calls results"
proof (induction calls arbitrary: acc trace)
  case Nil
  then show ?case by simp
next
  case (Cons tc calls)
  then obtain d result arguments' where tc: "tc = PDict d" and ex: "exec tc = Inr (result, arguments')"
    by auto
  from Cons.prems have rest: "list_all (\<lambda>tc. (\<exists>d. tc = PDict d) \<and> (\<exists>r. exec tc = Inr r)) calls"
    by simp
  obtain entry where step:
    "execute_calls exec (tc # calls) acc trace
       = execute_calls exec calls (acc @ [entry]) (trace @ [Dispatch tc])"
    and entry: "result_of exec tc entry"
    using tc ex by (simp add: arguments_after_def result_of_def)
  from Cons.IH [OF rest, of "acc @ [entry]" "trace @ [Dispatch tc]"] obtain results where
    "execute_calls exec calls (acc @ [entry]) (trace @ [Dispatch tc])
       = (Inr ((acc @ [entry]) @ results), (trace @ [Dispatch tc]) @ map Dispatch calls)"
    and "list_all2 (result_of exec) calls results" by blast
  with step entry have
    "execute_calls exec (tc # calls) acc trace
       = (Inr (acc @ (entry # results)), trace @ map Dispatch (tc # calls))
     \<and> list_all2 (result_of exec) (tc # calls) (entry # results)"
    by simp
  then show ?case by blast
qed

lemma execute_calls_trace:
  "\<exists>k \<le> length calls. snd (execute_calls exec calls acc trace) = trace @ map Dispatch (take k calls)"
proof (induction calls arbitrary: acc trace)
  case Nil
  then show ?case by simp
next
  case (Cons tc calls)
  show ?case
  proof (cases "\<exists>entry. execute_calls exec (tc # calls) acc trace
       = execute_calls exec calls (acc @ [entry]) (trace @ [Dispatch tc])")
    case True
    then obtain entry where step: "execute_calls exec (tc # calls) acc trace
       = execute_calls exec calls (acc @ [entry]) (trace @ [Dispatch tc])" by blast
    from Cons.IH [of "acc @ [entry]" "trace @ [Dispatch tc]"] obtain k where
      "k \<le> length calls"
      "snd (execute_calls exec calls (acc @ [entry]) (trace @ [Dispatch tc]))
         = (trace @ [Dispatch tc]) @ map Dispatch (take k calls)" by blast
    with step have "Suc k \<le> length (tc # calls) \<and>
       snd (execute_calls exec (tc # calls) acc trace) = trace @ map Dispatch (take (Suc k) (tc # calls))"
      by simp
    then show ?thesis by blast
  next
    case False
    then have "snd (execute_calls exec (tc # calls) acc trace) = trace @ [Dispatch tc]"
      by (auto split: sum.splits prod.splits)
    then have "Suc 0 \<le> length (tc # calls) \<and>
       snd (execute_calls exec (tc # calls) acc trace) = trace @ map Dispatch (take (Suc 0) (tc # calls))"
      by simp
    then show ?thesis by blast
  qed
qed

lemma results_text_concat:
  "results_text L results = ''Tool results:'' @ [CHR 0x0A] @ concat (map (result_line L) results)"
proof -
  have "foldl (\<lambda>text res. text @ result_line L res) start results
          = start @ concat (map (result_line L) results)" for start
    by (induction results arbitrary: start) simp_all
  then show ?thesis by (simp add: results_text_def)
qed


lemma tool_calling_returns_dict:
  "list_all (\<lambda>tc. \<exists>r. tool_calling_execute_tool L registry tc = Inr r) calls \<Longrightarrow>
   list_all (\<lambda>tc. (\<exists>d. tc = PDict d) \<and> (\<exists>r. tool_calling_execute_tool L registry tc = Inr r)) calls"
  unfolding list_all_iff tool_calling_execute_tool_def
  by (blast dest: execute_tool_with_dict)

lemma filter_completion_dispatch [simp]:
  "filter is_completion (map Dispatch calls) = []"
  "filter (\<lambda>e. \<not> is_completion e) (map Dispatch calls) = map Dispatch calls"
  by (induction calls) simp_all

text \<open>
  The structure of a run of \<^verbatim>\<open>ToolCallingAgent.run\<close>. Let \<open>messages\<close> be the
  message list of the first completion call and let the extractor return
  \<open>tool_calls\<close> on its answer. With no tool call, the answer is returned verbatim and
  the only event is that completion call. With tool calls whose dispatches all return,
  every call is dispatched once, in extraction order, between two completion calls; the
  second one gets the first message list, the assistant's answer and the block
  \<^verbatim>\<open>Tool results:\<close> with one line per call, and its answer is returned whatever it
  contains. In every case the dispatches of the run are an initial part of the
  extracted calls, in order, and there are at most two completion calls.
\<close>

theorem tool_calling_run_single_round:
  assumes h: "history = tc_conversation_history a @ [\<lparr>role = ''user'', content = user_input\<rparr>]"
    and m: "messages =
       system_message (tc_system_prompt a) (tc_format_tools_for_prompt L (tc_tools a)) # history"
    and e: "extract_tool_calls L (tc_model a messages) = Inr tool_calls"
  shows
   "(tool_calls = [] \<longrightarrow>
       tool_calling_run L a user_input
         = (Inr (tc_model a messages),
            history @ [\<lparr>role = ''assistant'', content = tc_model a messages\<rparr>],
            [Completion messages]))
    \<and> (tool_calls \<noteq> []
        \<and> list_all (\<lambda>tc. \<exists>r. tool_calling_execute_tool L (tc_tools a) tc = Inr r) tool_calls
       \<longrightarrow> (\<exists>results messages2.
              list_all2 (result_of (tool_calling_execute_tool L (tc_tools a))) tool_calls results
              \<and> messages2 = messages @
                   [\<lparr>role = ''assistant'', content = tc_model a messages\<rparr>,
                    \<lparr>role = ''user'',
                     content = ''Tool results:'' @ [CHR 0x0A] @ concat (map (result_line L) results)\<rparr>]
              \<and> tool_calling_run L a user_input
                  = (Inr (tc_model a messages2),
                     history @ [\<lparr>role = ''assistant'', content = tc_model a messages2\<rparr>],
                     [Completion messages] @ map Dispatch tool_calls @ [Completion messages2])))
    \<and> (\<exists>k \<le> length tool_calls.
          filter (\<lambda>e. \<not> is_completion e) (snd (snd (tool_calling_run L a user_input)))
            = map Dispatch (take k tool_calls))
    \<and> length (filter is_completion (snd (snd (tool_calling_run L a user_input)))) \<le> 2"
proof (intro conjI impI)
  assume "tool_calls = []"
  with h m e show "tool_calling_run L a user_input
         = (Inr (tc_model a messages),
            history @ [\<lparr>role = ''assistant'', content = tc_model a messages\<rparr>],
            [Completion messages])"
    by (simp add: tool_calling_run_def Let_def)
next
  assume a: "tool_calls \<noteq> []
        \<and> list_all (\<lambda>tc. \<exists>r. tool_calling_execute_tool L (tc_tools a) tc = Inr r) tool_calls"
  from execute_calls_results [OF tool_calling_returns_dict, of L "tc_tools a" tool_calls "[]" "[Completion messages]"] a
  obtain results where
    ex: "execute_calls (tool_calling_execute_tool L (tc_tools a)) tool_calls [] [Completion messages]
          = (Inr results, [Completion messages] @ map Dispatch tool_calls)"
    and r: "list_all2 (result_of (tool_calling_execute_tool L (tc_tools a))) tool_calls results"
    by auto
  let ?messages2 = "messages @
                   [\<lparr>role = ''assistant'', content = tc_model a messages\<rparr>,
                    \<lparr>role = ''user'',
                     content = ''Tool results:'' @ [CHR 0x0A] @ concat (map (result_line L) results)\<rparr>]"
  from h m e a ex have "tool_calling_run L a user_input
                  = (Inr (tc_model a ?messages2),
                     history @ [\<lparr>role = ''assistant'', content = tc_model a ?messages2\<rparr>],
                     [Completion messages] @ map Dispatch tool_calls @ [Completion ?messages2])"
    by (simp add: tool_calling_run_def Let_def results_text_concat)
  with r show "\<exists>results messages2.
              list_all2 (result_of (tool_calling_execute_tool L (tc_tools a))) tool_calls results
              \<and> messages2 = messages @
                   [\<lparr>role = ''assistant'', content = tc_model a messages\<rparr>,
                    \<lparr>role = ''user'',
                     content = ''Tool results:'' @ [CHR 0x0A] @ concat (map (result_line L) results)\<rparr>]
              \<and> tool_calling_run L a user_input
                  = (Inr (tc_model a messages2),
                     history @ [\<lparr>role = ''assistant'', content = tc_model a messages2\<rparr>],
                     [Completion messages] @ map Dispatch tool_calls @ [Completion messages2])"
    by blast
next
  from execute_calls_trace [of tool_calls "tool_calling_execute_tool L (tc_tools a)" "[]" "[Completion messages]"]
  obtain k where k: "k \<le> length tool_calls"
    and tr: "snd (execute_calls (tool_calling_execute_tool L (tc_tools a)) tool_calls [] [Completion messages])
          = [Completion messages] @ map Dispatch (take k tool_calls)"
    by blast
  have ev: "filter (\<lambda>e. \<not> is_completion e) (snd (snd (tool_calling_run L a user_input)))
            = map Dispatch (take (if tool_calls = [] then 0 else k) tool_calls)
      \<and> length (filter is_completion (snd (snd (tool_calling_run L a user_input)))) \<le> 2"
  proof (cases "execute_calls (tool_calling_execute_tool L (tc_tools a)) tool_calls [] [Completion messages]")
    case (Pair outcome trace2)
    with tr have t2: "trace2 = [Completion messages] @ map Dispatch (take k tool_calls)" by simp
    show ?thesis
      using h m e Pair t2
      by (cases outcome) (simp_all add: tool_calling_run_def Let_def)
  qed
  from ev k show "\<exists>k \<le> length tool_calls.
          filter (\<lambda>e. \<not> is_completion e) (snd (snd (tool_calling_run L a user_input)))
            = map Dispatch (take k tool_calls)"
    by (metis le0)
  from ev show "length (filter is_completion (snd (snd (tool_calling_run L a user_input)))) \<le> 2"
    by simp
qed

section \<open>The iteration bound\<close>

lemma react_loop_bounded:
  "length (filter is_completion (snd (snd (react_loop L a history i messages trace))))
     \<le> length (filter is_completion trace) + nat (max_iterations a - i)"
proof (induction "nat (max_iterations a - i)" arbitrary: i messages trace)
  case 0
  then have "\<not> i < max_iterations a" by simp
  then show ?case by (subst react_loop.simps) simp
next
  case (Suc n)
  then have lt: "i < max_iterations a" by simp
  from Suc(2) have n: "n = nat (max_iterations a - (i + 1))" by simp
  from lt have suc: "nat (max_iterations a - i) = Suc (nat (max_iterations a - (i + 1)))" by simp
  let ?trace1 = "trace @ [Completion messages]"
  show ?case
  proof (cases "extract_final_response (llm a messages)")
    case (Some final)
    with lt show ?thesis by (subst react_loop.simps) (simp add: Let_def)
  next
    case None
    show ?thesis
    proof (cases "extract_tool_calls L (llm a messages)")
      case (Inl e)
      with None lt show ?thesis by (subst react_loop.simps) (simp add: Let_def)
    next
      case (Inr tool_calls)
      show ?thesis
      proof (cases "tool_calls = []")
        case True
        with Inr None lt show ?thesis by (subst react_loop.simps) (simp add: Let_def)
      next
        case False
        from execute_calls_trace [of tool_calls "react_execute_tool L (tools a)" "[]" ?trace1]
        obtain k where
          tr: "snd (execute_calls (react_execute_tool L (tools a)) tool_calls [] ?trace1)
                 = ?trace1 @ map Dispatch (take k tool_calls)" by blast
        show ?thesis
        proof (cases "execute_calls (react_execute_tool L (tools a)) tool_calls [] ?trace1")
          case (Pair outcome trace2)
          with tr have t2: "trace2 = ?trace1 @ map Dispatch (take k tool_calls)" by simp
          show ?thesis
          proof (cases outcome)
            case (Inl e)
            with Pair t2 False Inr None lt suc show ?thesis
              by (subst react_loop.simps) (simp add: Let_def)
          next
            case (Inr tool_results)
            let ?messages' = "messages @
               [\<lparr>role = ''assistant'', content = llm a messages\<rparr>,
                \<lparr>role = ''user'', content = results_text L tool_results\<rparr>]"
            have step: "react_loop L a history i messages trace
                          = react_loop L a history (i + 1) ?messages' trace2"
              using Pair Inr False \<open>extract_tool_calls L (llm a messages) = Inr tool_calls\<close> None lt
              by (subst react_loop.simps) (simp add: Let_def)
            from Suc(1) [OF n, of ?messages' trace2] t2 suc step show ?thesis by simp
          qed
        qed
      qed
    qed
  qed
qed

text \<open>
  The iterations of \<^verbatim>\<open>ReActAgent.run\<close>. No run calls the completion capability
  more than \<^verbatim>\<open>max_iterations\<close> times. Let every specification of the registry parse
  (the system message can be built), and let the completion capability answer every
  message list with a text that has no \<^verbatim>\<open><response>\<close> span and from which at least
  one tool call is extracted, every extracted call being a dictionary with a hashable
  name. Then \<^verbatim>\<open>run\<close> returns the sentinel, the history holds the user's input and
  nothing more, and the run has called the completion capability exactly
  \<^verbatim>\<open>max_iterations\<close> times (no time when that number is negative).
\<close>

theorem react_run_exhausts_iterations:
  "length (filter is_completion (snd (snd (react_run L a user_input)))) \<le> nat (max_iterations a)
   \<and> (list_all (\<lambda>(k, t). json_loads L (tool_specification t) \<noteq> None) (tools a)
        \<and> (\<forall>ms. extract_final_response (llm a ms) = None)
        \<and> (\<forall>ms. \<exists>tool_calls. extract_tool_calls L (llm a ms) = Inr tool_calls
                  \<and> tool_calls \<noteq> [] \<and> list_all dispatchable tool_calls)
      \<longrightarrow> (\<exists>events.
             react_run L a user_input
               = (Inr sentinel,
                  conversation_history a @ [\<lparr>role = ''user'', content = user_input\<rparr>],
                  events)
             \<and> length (filter is_completion events) = nat (max_iterations a)))"
proof (intro conjI impI)
  show "length (filter is_completion (snd (snd (react_run L a user_input)))) \<le> nat (max_iterations a)"
  proof (cases "format_tools_for_prompt L (tools a)")
    case (Inl e)
    then show ?thesis by (simp add: react_run_def Let_def)
  next
    case (Inr tools_text)
    with react_loop_bounded [of L a
        "conversation_history a @ [\<lparr>role = ''user'', content = user_input\<rparr>]" 0
        "system_message (system_prompt a) tools_text
           # conversation_history a @ [\<lparr>role = ''user'', content = user_input\<rparr>]" "[]"]
    show ?thesis by (simp add: react_run_def Let_def)
  qed
next
  assume h: "list_all (\<lambda>(k, t). json_loads L (tool_specification t) \<noteq> None) (tools a)
        \<and> (\<forall>ms. extract_final_response (llm a ms) = None)
        \<and> (\<forall>ms. \<exists>tool_calls. extract_tool_calls L (llm a ms) = Inr tool_calls
                  \<and> tool_calls \<noteq> [] \<and> list_all dispatchable tool_calls)"
  then have specs: "list_all (\<lambda>(k, t). json_loads L (tool_specification t) \<noteq> None) (tools a)"
    and no_final: "\<forall>ms. extract_final_response (llm a ms) = None"
    and calls: "\<forall>ms. \<exists>tool_calls. extract_tool_calls L (llm a ms) = Inr tool_calls
                  \<and> tool_calls \<noteq> [] \<and> list_all dispatchable tool_calls"
    by simp_all
  from load_specifications_total [OF specs] obtain tools_json where
    "load_specifications L (tools a) = Inr tools_json" by blast
  then have fmt: "format_tools_for_prompt L (tools a) = Inr (tools_block L tools_json)"
    by (simp add: format_tools_for_prompt_def)
  let ?history = "conversation_history a @ [\<lparr>role = ''user'', content = user_input\<rparr>]"
  let ?messages = "system_message (system_prompt a) (tools_block L tools_json) # ?history"
  from react_loop_exhausts [OF no_final calls, of ?history 0 ?messages "[]"]
  obtain events where
    "react_loop L a ?history 0 ?messages [] = (Inr sentinel, ?history, events)"
    and "length (filter is_completion events) = nat (max_iterations a)"
    by auto
  with fmt show "\<exists>events.
             react_run L a user_input
               = (Inr sentinel,
                  conversation_history a @ [\<lparr>role = ''user'', content = user_input\<rparr>],
                  events)
             \<and> length (filter is_completion events) = nat (max_iterations a)"
    by (simp add: react_run_def Let_def)
qed

section \<open>Example runs\<close>

definition looping_response :: string where
  "looping_response = ''<tool_call>'' @ add_call_text @ ''</tool_call>''"

text \<open>An agent whose model asks for the same tool call whatever it is sent.\<close>

definition looping_agent :: react_agent where
  "looping_agent = react_init (\<lambda>ms. looping_response) ''You are an agent.'' [add_tool] 3"

definition final_response_text :: string where
  "final_response_text =
     ''I know it. <response> The answer is 42. </response> <tool_call>'' @ add_call_text
     @ ''</tool_call>''"

text \<open>An agent without tools whose model answers at once.\<close>

definition answering_agent :: react_agent where
  "answering_agent = react_init (\<lambda>ms. final_response_text) ''You are an agent.'' [] 5"

text \<open>
  A single-round agent whose model asks for a tool call on the first message list
  (system message and user input) and answers in plain text on a longer one.
\<close>

definition single_round_agent :: tool_calling_agent where
  "single_round_agent =
     tool_calling_init
       (\<lambda>ms. if length ms \<le> 2 then looping_response else ''The sum is 30.'')
       ''You are an agent.'' [add_tool]"

lemma looping_extract:
  "extract_tool_calls sample_lib looping_response = Inr [add_call_value]"
  by (simp add: looping_response_def scan_simps sample_simps)

lemma looping_no_final: "extract_final_response looping_response = None"
  by (simp add: looping_response_def extract_final_response_def re_search_span_def add_call_text_def)

text \<open>
  Two agents, three iterations allowed, whose model never answers with a
  \<^verbatim>\<open><response>\<close> span and always with one span the extractor returns as a tool
  call: a list holding the two key names, and a dictionary whose name is a list.
\<close>

definition list_payload_response :: string where
  \<open>list_payload_response = ''<tool_call>["name", "arguments"]</tool_call>''\<close>

definition list_payload_agent :: react_agent where
  "list_payload_agent = react_init (\<lambda>ms. list_payload_response) ''You are an agent.'' [add_tool] 3"

definition unhashable_name_response :: string where
  \<open>unhashable_name_response = ''<tool_call>{"name": ["x"], "arguments": {}}</tool_call>''\<close>

definition unhashable_name_agent :: react_agent where
  "unhashable_name_agent =
     react_init (\<lambda>ms. unhashable_name_response) ''You are an agent.'' [add_tool] 3"

text \<open>
  A single-round agent whose model asks for two tool calls, the first with the
  argument \<^verbatim>\<open>1e999\<close>.
\<close>

definition failing_response :: string where
  "failing_response =
     ''<tool_call>'' @ overflow_call_text @ ''</tool_call><tool_call>'' @ add_call_text
     @ ''</tool_call>''"

definition failing_agent :: tool_calling_agent where
  "failing_agent = tool_calling_init (\<lambda>ms. failing_response) ''You are an agent.'' [add_tool]"

text \<open>
  The looping agent, with three iterations allowed: its registry holds
  \<^verbatim>\<open>add_two_numbers\<close>, every answer of its model is one well-formed tool call, and
  the run ends with the sentinel after three completion calls.
\<close>

theorem react_run_exhausts_iterations_witness:
  "list_all (\<lambda>(k, t). json_loads sample_lib (tool_specification t) \<noteq> None) (tools looping_agent)
   \<and> extract_final_response looping_response = None
   \<and> extract_tool_calls sample_lib looping_response = Inr [add_call_value]
   \<and> list_all dispatchable [add_call_value]
   \<and> (\<exists>events.
         react_run sample_lib looping_agent ''hello''
           = (Inr sentinel, [\<lparr>role = ''user'', content = ''hello''\<rparr>], events)
         \<and> length (filter is_completion events) = 3)"
proof -
  have specs: "list_all (\<lambda>(k, t). json_loads sample_lib (tool_specification t) \<noteq> None) (tools looping_agent)"
    by (simp add: looping_agent_def react_init_def build_registry_def add_tool_def sample_simps)
  have d: "list_all dispatchable [add_call_value]"
    by (simp add: add_call_value_def)
  have nf: "\<forall>ms. extract_final_response (llm looping_agent ms) = None"
    by (simp add: looping_agent_def react_init_def looping_no_final)
  have calls: "\<forall>ms. \<exists>tool_calls. extract_tool_calls sample_lib (llm looping_agent ms) = Inr tool_calls
                  \<and> tool_calls \<noteq> [] \<and> list_all dispatchable tool_calls"
    using d by (simp add: looping_agent_def react_init_def looping_extract)
  from react_run_exhausts_iterations [of sample_lib looping_agent "''hello''"] specs nf calls
  have "\<exists>events.
         react_run sample_lib looping_agent ''hello''
           = (Inr sentinel, [\<lparr>role = ''user'', content = ''hello''\<rparr>], events)
         \<and> length (filter is_completion events) = 3"
    by (simp add: looping_agent_def react_init_def)
  with specs d looping_no_final looping_extract show ?thesis by simp
qed


text \<open>
  A response with a final answer followed by a tool-call span: the run returns the
  stripped answer after one completion call and dispatches nothing.
\<close>

theorem final_answer_ends_the_loop_witness:
  "final_response_text
     = ''I know it. '' @ ''<response>'' @ '' The answer is 42. '' @ ''</response>''
       @ ('' <tool_call>'' @ add_call_text @ ''</tool_call>'')
   \<and> 0 < max_iterations answering_agent
   \<and> (\<exists>p i q. final_response_text = p @ ''<response>'' @ i @ ''</response>'' @ q
        \<and> (\<forall>p' r'. final_response_text = p' @ ''<response>'' @ r' \<longrightarrow> length p \<le> length p')
        \<and> (\<forall>i' q'. i @ ''</response>'' @ q = i' @ ''</response>'' @ q' \<longrightarrow> length i \<le> length i')
        \<and> react_loop sample_lib answering_agent [] 0 [] []
            = (Inr (strip i), [\<lparr>role = ''assistant'', content = final_response_text\<rparr>],
               [Completion []]))
   \<and> react_run sample_lib answering_agent ''What is 6 times 7?''
       = (Inr ''The answer is 42.'',
          [\<lparr>role = ''user'', content = ''What is 6 times 7?''\<rparr>,
           \<lparr>role = ''assistant'', content = final_response_text\<rparr>],
          [Completion
             [system_message ''You are an agent.'' (''<tools>'' @ [CHR 0x0A] @ ''[]'' @ [CHR 0x0A] @ ''</tools>''),
              \<lparr>role = ''user'', content = ''What is 6 times 7?''\<rparr>]])"
proof -
  have t: "final_response_text
     = ''I know it. '' @ ''<response>'' @ '' The answer is 42. '' @ ''</response>''
       @ ('' <tool_call>'' @ add_call_text @ ''</tool_call>'')"
    by (simp add: final_response_text_def)
  have l: "llm answering_agent [] = final_response_text"
    by (simp add: answering_agent_def react_init_def)
  have m: "0 < max_iterations answering_agent"
    by (simp add: answering_agent_def react_init_def)
  have ex: "extract_final_response final_response_text = Some ''The answer is 42.''"
    by (simp add: final_response_text_def extract_final_response_def re_search_span_def
        strip_def is_space_def add_call_text_def)
  have run: "react_run sample_lib answering_agent ''What is 6 times 7?''
       = (Inr ''The answer is 42.'',
          [\<lparr>role = ''user'', content = ''What is 6 times 7?''\<rparr>,
           \<lparr>role = ''assistant'', content = final_response_text\<rparr>],
          [Completion
             [system_message ''You are an agent.'' (''<tools>'' @ [CHR 0x0A] @ ''[]'' @ [CHR 0x0A] @ ''</tools>''),
              \<lparr>role = ''user'', content = ''What is 6 times 7?''\<rparr>]])"
    using ex
    by (simp add: react_run_def answering_agent_def react_init_def build_registry_def
        format_tools_for_prompt_def tools_block_def sample_lib_def sample_json_dumps_indent_def react_loop.simps Let_def)
  from final_answer_ends_the_loop [of answering_agent "[]", OF _ m, of "''I know it. ''"
      "'' The answer is 42. ''" "'' <tool_call>'' @ add_call_text @ ''</tool_call>''"
      sample_lib "[]" "[]"] t l
  have "\<exists>p i q. final_response_text = p @ ''<response>'' @ i @ ''</response>'' @ q
        \<and> (\<forall>p' r'. final_response_text = p' @ ''<response>'' @ r' \<longrightarrow> length p \<le> length p')
        \<and> (\<forall>i' q'. i @ ''</response>'' @ q = i' @ ''</response>'' @ q' \<longrightarrow> length i \<le> length i')
        \<and> react_loop sample_lib answering_agent [] 0 [] []
            = (Inr (strip i), [\<lparr>role = ''assistant'', content = final_response_text\<rparr>],
               [Completion []])"
    by simp
  with t m run show ?thesis by blast
qed

lemma single_round_exec:
  "tool_calling_execute_tool sample_lib (build_registry [add_tool]) add_call_value
     = Inr (PInt 30, PDict [(''a'', PInt 10), (''b'', PInt 20)])"
  by (simp add: tool_calling_execute_tool_def execute_tool_with_def
        build_registry_def add_tool_def lookup_tool_def validate_arguments_def sample_simps
        coerce_simps tool_calling_caught_def invoke_def add_call_def
        int_of_str_def strip_def is_space_def unsigned_of_str_def digit_val_def)

text \<open>
  The single-round agent on \<^verbatim>\<open>add_two_numbers\<close>: the strings \<^verbatim>\<open>"10"\<close> and
  \<^verbatim>\<open>"20"\<close> are converted, the tool is dispatched once and returns 30, and the
  answer of the second completion call is returned.
\<close>

theorem tool_calling_run_single_round_witness:
  "extract_tool_calls sample_lib looping_response = Inr [add_call_value]
   \<and> tool_calling_execute_tool sample_lib (build_registry [add_tool]) add_call_value
       = Inr (PInt 30, PDict [(''a'', PInt 10), (''b'', PInt 20)])
   \<and> fst (tool_calling_run sample_lib single_round_agent ''What is 10 + 20?'')
       = Inr ''The sum is 30.''
   \<and> filter (\<lambda>e. \<not> is_completion e)
        (snd (snd (tool_calling_run sample_lib single_round_agent ''What is 10 + 20?'')))
       = [Dispatch add_call_value]
   \<and> length (filter is_completion
        (snd (snd (tool_calling_run sample_lib single_round_agent ''What is 10 + 20?'')))) = 2"
proof -
  let ?history = "tc_conversation_history single_round_agent
       @ [\<lparr>role = ''user'', content = ''What is 10 + 20?''\<rparr>]"
  let ?messages = "system_message (tc_system_prompt single_round_agent)
       (tc_format_tools_for_prompt sample_lib (tc_tools single_round_agent)) # ?history"
  have first: "tc_model single_round_agent ?messages = looping_response"
    by (simp add: single_round_agent_def tool_calling_init_def)
  have second: "2 < length ms \<Longrightarrow> tc_model single_round_agent ms = ''The sum is 30.''" for ms
    by (simp add: single_round_agent_def tool_calling_init_def)
  have e: "extract_tool_calls sample_lib (tc_model single_round_agent ?messages) = Inr [add_call_value]"
    unfolding first by (rule looping_extract)
  have reg: "tc_tools single_round_agent = build_registry [add_tool]"
    by (simp add: single_round_agent_def tool_calling_init_def)
  have ret: "list_all (\<lambda>tc. \<exists>r. tool_calling_execute_tool sample_lib (tc_tools single_round_agent) tc = Inr r)
               [add_call_value]"
    by (simp add: reg single_round_exec)
  from tool_calling_run_single_round [OF refl refl e] ret
  obtain results messages2 where
    m2: "messages2 = ?messages @
                   [\<lparr>role = ''assistant'', content = tc_model single_round_agent ?messages\<rparr>,
                    \<lparr>role = ''user'',
                     content = ''Tool results:'' @ [CHR 0x0A] @ concat (map (result_line sample_lib) results)\<rparr>]"
    and run: "tool_calling_run sample_lib single_round_agent ''What is 10 + 20?''
           = (Inr (tc_model single_round_agent messages2),
              ?history @ [\<lparr>role = ''assistant'', content = tc_model single_round_agent messages2\<rparr>],
              [Completion ?messages] @ map Dispatch [add_call_value] @ [Completion messages2])"
    by auto
  from m2 have "2 < length messages2" by simp
  then have val: "tc_model single_round_agent messages2 = ''The sum is 30.''" by (rule second)
  note run' = run [unfolded val]
  have "fst (tool_calling_run sample_lib single_round_agent ''What is 10 + 20?'')
       = Inr ''The sum is 30.''"
    unfolding run' by simp
  moreover have "filter (\<lambda>e. \<not> is_completion e)
        (snd (snd (tool_calling_run sample_lib single_round_agent ''What is 10 + 20?'')))
       = [Dispatch add_call_value]"
    unfolding run' by simp
  moreover have "length (filter is_completion
        (snd (snd (tool_calling_run sample_lib single_round_agent ''What is 10 + 20?'')))) = 2"
    unfolding run' by simp
  ultimately show ?thesis
    using looping_extract single_round_exec by simp
qed

lemma failing_extract:
  "extract_tool_calls sample_lib failing_response = Inr [overflow_call_value, add_call_value]"
  by (simp add: failing_response_def scan_simps sample_simps)

text \<open>
  Claim C7 says that in every run with extracted tool calls each call is dispatched
  once, one further completion call is made and its answer returned. On the first of
  two extracted calls the conversion raises \<^verbatim>\<open>OverflowError\<close>, which
  \<^verbatim>\<open>ToolCallingAgent.execute_tool\<close> lets through: \<^verbatim>\<open>run\<close> raises, the second call
  is never dispatched and no second completion call is made.
\<close>

theorem tool_calling_run_aborts_on_overflow:
  "extract_tool_calls sample_lib failing_response = Inr [overflow_call_value, add_call_value]
   \<and> fst (tool_calling_run sample_lib failing_agent ''Add infinity and 2, then 10 and 20.'')
       = Inl OverflowError
   \<and> filter (\<lambda>e. \<not> is_completion e)
        (snd (snd (tool_calling_run sample_lib failing_agent ''Add infinity and 2, then 10 and 20.'')))
       = [Dispatch overflow_call_value]
   \<and> length (filter is_completion
        (snd (snd (tool_calling_run sample_lib failing_agent ''Add infinity and 2, then 10 and 20.'')))) = 1"
proof -
  have ex: "tool_calling_execute_tool sample_lib (build_registry [add_tool]) overflow_call_value
     = Inl OverflowError"
    by (simp add: tool_calling_execute_tool_def execute_tool_with_def
        build_registry_def add_tool_def lookup_tool_def validate_arguments_def sample_simps
        coerce_simps tool_calling_caught_def)
  show ?thesis
    using failing_extract ex
    by (simp add: tool_calling_run_def failing_agent_def tool_calling_init_def Let_def)
qed

lemma list_payload_extract:
  "extract_final_response list_payload_response = None
   \<and> extract_tool_calls sample_lib list_payload_response
       = Inr [PList [PStr ''name'', PStr ''arguments'']]"
  by (simp add: list_payload_response_def extract_final_response_def scan_simps sample_simps)

lemma unhashable_name_extract:
  "extract_final_response unhashable_name_response = None
   \<and> extract_tool_calls sample_lib unhashable_name_response
       = Inr [PDict [(''name'', PList [PStr ''x'']), (''arguments'', PDict [])]]"
  by (simp add: unhashable_name_response_def extract_final_response_def scan_simps sample_simps)

lemma sample_format_tools:
  "format_tools_for_prompt sample_lib (build_registry [add_tool])
     = Inr (tools_block sample_lib [add_metadata])"
  by (simp add: format_tools_for_prompt_def build_registry_def add_tool_def sample_simps)

text \<open>
  Claim C1 says that \<^verbatim>\<open>ReActAgent.run\<close> returns the sentinel after exactly
  \<^verbatim>\<open>max_iterations\<close> iterations whenever the responses never contain a
  \<^verbatim>\<open><response>\<close> span and always yield at least one extracted tool call. The
  payload \<^verbatim>\<open>["name", "arguments"]\<close> is extracted as a tool call, and
  \<^verbatim>\<open>tool_call.get("name")\<close> in \<^verbatim>\<open>execute_tool\<close> raises \<^verbatim>\<open>AttributeError\<close> on the
  list; the payload \<^verbatim>\<open>{"name": ["x"], "arguments": {}}\<close> is extracted too, and
  \<^verbatim>\<open>tool_name not in self.tools\<close> raises \<^verbatim>\<open>TypeError\<close> on the unhashable name.
  Both lines stand outside every \<^verbatim>\<open>try\<close>: with three iterations allowed, the run
  raises in the first one, after a single completion call.
\<close>

theorem react_run_raises_on_ill_formed_call:
  "max_iterations list_payload_agent = 3
   \<and> extract_final_response list_payload_response = None
   \<and> extract_tool_calls sample_lib list_payload_response
       = Inr [PList [PStr ''name'', PStr ''arguments'']]
   \<and> fst (react_run sample_lib list_payload_agent ''hello'') = Inl AttributeError
   \<and> length (filter is_completion (snd (snd (react_run sample_lib list_payload_agent ''hello'')))) = 1
   \<and> max_iterations unhashable_name_agent = 3
   \<and> extract_final_response unhashable_name_response = None
   \<and> extract_tool_calls sample_lib unhashable_name_response
       = Inr [PDict [(''name'', PList [PStr ''x'']), (''arguments'', PDict [])]]
   \<and> fst (react_run sample_lib unhashable_name_agent ''hello'') = Inl TypeError
   \<and> length (filter is_completion (snd (snd (react_run sample_lib unhashable_name_agent ''hello'')))) = 1"
proof -
  have a: "react_execute_tool sample_lib (build_registry [add_tool])
             (PList [PStr ''name'', PStr ''arguments'']) = Inl AttributeError"
    by (simp add: react_execute_tool_def execute_tool_with_def)
  have b: "react_execute_tool sample_lib (build_registry [add_tool])
             (PDict [(''name'', PList [PStr ''x'']), (''arguments'', PDict [])]) = Inl TypeError"
    by (simp add: react_execute_tool_def execute_tool_with_def lookup_tool_def)
  have r1: "fst (react_run sample_lib list_payload_agent ''hello'') = Inl AttributeError
     \<and> length (filter is_completion (snd (snd (react_run sample_lib list_payload_agent ''hello'')))) = 1"
    using list_payload_extract a sample_format_tools
    by (simp add: react_run_def list_payload_agent_def react_init_def Let_def react_loop.simps)
  have r2: "fst (react_run sample_lib unhashable_name_agent ''hello'') = Inl TypeError
     \<and> length (filter is_completion (snd (snd (react_run sample_lib unhashable_name_agent ''hello'')))) = 1"
    using unhashable_name_extract b sample_format_tools
    by (simp add: react_run_def unhashable_name_agent_def react_init_def Let_def react_loop.simps)
  show ?thesis
    using r1 r2 list_payload_extract unhashable_name_extract
    by (simp add: list_payload_agent_def unhashable_name_agent_def react_init_def)
qed

end
